theory Spec2Isabelle
  imports Complex_Main "HOL-Library.Word" "HOL-Library.Sublist"
begin

section \<open>JavaScript values used by the program\<close>

text \<open>
  A value of type \<open>string | undefined\<close> (or \<open>string | null\<close>) is a \<open>string option\<close>.
  The conditions of the source test such values for truthiness: \<open>undefined\<close>, \<open>null\<close> and
  the empty string are falsy, every other string is truthy.
\<close>

definition truthy :: "string option \<Rightarrow> bool" where
  "truthy v = (case v of None \<Rightarrow> False | Some s \<Rightarrow> s \<noteq> [])"

text \<open>
  A JavaScript number is a double. The program only compares numbers with the literals
  \<open>0.7\<close> and \<open>0.5\<close> and tests them for truthiness, so a number is modelled by the rational
  it denotes, or one of the three special values. (No double lies strictly between the
  double written \<open>0.7\<close> and the rational \<open>7/10\<close>, so the comparison of a double with the
  literal agrees with the comparison of rationals.)
\<close>

datatype jsnum = Finite rat | PosInf | NegInf | NaN

fun isNaN :: "jsnum \<Rightarrow> bool" where
  "isNaN NaN = True"
| "isNaN _ = False"

text \<open>Truthiness of \<open>number | null\<close>: \<open>null\<close>, \<open>0\<close> and \<open>NaN\<close> are falsy.\<close>

fun num_truthy :: "jsnum option \<Rightarrow> bool" where
  "num_truthy None = False"
| "num_truthy (Some (Finite r)) = (r \<noteq> 0)"
| "num_truthy (Some NaN) = False"
| "num_truthy (Some PosInf) = True"
| "num_truthy (Some NegInf) = True"

text \<open>\<open>x > c\<close> for \<open>x : number | null\<close> and a finite literal \<open>c\<close>; \<open>null\<close> converts to \<open>0\<close>.\<close>

fun num_gt :: "jsnum option \<Rightarrow> rat \<Rightarrow> bool" where
  "num_gt None c = (c < 0)"
| "num_gt (Some (Finite r)) c = (c < r)"
| "num_gt (Some PosInf) c = True"
| "num_gt (Some NegInf) c = False"
| "num_gt (Some NaN) c = False"

datatype js_error = TypeError | SyntaxError | NetworkFailure | HttpError

definition bindE :: "js_error + 'a \<Rightarrow> ('a \<Rightarrow> js_error + 'b) \<Rightarrow> js_error + 'b" where
  "bindE m f = (case m of Inl e \<Rightarrow> Inl e | Inr x \<Rightarrow> f x)"

section \<open>Server: \<open>Qx7Manager\<close> (routes/estore.ts)\<close>

subsection \<open>The crypto library\<close>

text \<open>
  \<open>crypto.randomBytes\<close> and \<open>crypto.createHash("sha256")\<close> belong to the platform, not to
  the repository. They are parameters of the model: the entropy source gives the bytes
  that \<open>randomBytes\<close> returns, and the hash is any function from strings to 256-bit
  digests.
\<close>

record crypto =
  entropy :: "nat \<Rightarrow> 8 word"
  sha256 :: "string \<Rightarrow> 256 word"

definition randomBytes :: "crypto \<Rightarrow> nat \<Rightarrow> 8 word list" where
  "randomBytes c n = map (entropy c) [0..<n]"

text \<open>The 32 bytes of a digest, most significant first.\<close>

definition digest :: "256 word \<Rightarrow> 8 word list" where
  "digest w = map (\<lambda>i. ucast (drop_bit (8 * (31 - i)) w)) [0..<32]"

text \<open>\<open>Buffer.toString("hex")\<close>: two lower-case hexadecimal digits for each byte.\<close>

definition hexDigit :: "nat \<Rightarrow> char" where
  "hexDigit n = ''0123456789abcdef'' ! n"

definition hexByte :: "8 word \<Rightarrow> string" where
  "hexByte b = [hexDigit (unat b div 16), hexDigit (unat b mod 16)]"

definition toHex :: "8 word list \<Rightarrow> string" where
  "toHex bs = concat (map hexByte bs)"

subsection \<open>\<open>generateQx7Id\<close>, \<open>isValidQx7Id\<close>, \<open>cleanEtag\<close>\<close>

text \<open>
  \<open>data.cognitoUserId\<close> is the only field of \<open>data\<close> that is read; it is \<open>None\<close> when
  \<open>data\<close> is \<open>{}\<close>. \<open>Hash.update(undefined)\<close> throws a \<open>TypeError\<close>.
\<close>

definition generateQx7Id :: "crypto \<Rightarrow> string \<Rightarrow> string option \<Rightarrow> js_error + string" where
  "generateQx7Id c strategy data_cognitoUserId =
     (if strategy = ''random'' then Inr (toHex (randomBytes c 16))
      else if strategy = ''cognito'' then
        (case data_cognitoUserId of
           None \<Rightarrow> Inl TypeError
         | Some u \<Rightarrow> Inr (take 32 (toHex (digest (sha256 c u)))))
      else Inr (toHex (randomBytes c 16)))"

text \<open>The character class \<open>[a-f0-9]\<close> under the flag \<open>i\<close>.\<close>

definition isHexChar :: "char \<Rightarrow> bool" where
  "isHexChar ch = (ch \<in> set ''0123456789abcdefABCDEF'')"

text \<open>
  \<open>isValidQx7Id\<close>: a non-string (here \<open>None\<close>) and the empty string are rejected by the
  first test, then the string is matched against \<open>/^[a-f0-9]{16,}$/i\<close>.
\<close>

definition isValidQx7Id :: "string option \<Rightarrow> bool" where
  "isValidQx7Id v =
     (case v of
        None \<Rightarrow> False
      | Some s \<Rightarrow> if s = [] then False else 16 \<le> length s \<and> list_all isHexChar s)"

definition dquote :: char where
  "dquote = CHR 0x22"

definition cleanEtag :: "string option \<Rightarrow> string option" where
  "cleanEtag etag =
     (case etag of
        None \<Rightarrow> None
      | Some e \<Rightarrow>
          if e = [] then None
          else if hd e = dquote \<and> last e = dquote then Some (butlast (tl e))
          else Some e)"

subsection \<open>\<open>resolveQx7IdAndMethod\<close>\<close>

record signals =
  isIncognito :: bool
  hasLimitedStorage :: bool
  cognitoUserId :: "string option"
  clientQx7Id :: "string option"
  dataCleared :: bool
  swIntegrityScore :: "jsnum option"
  returningFromAuth :: bool
  etagFromHeader :: "string option"

record resolution =
  qx7Id :: "string option"
  isReturning :: bool
  persistenceMethod :: string

text \<open>The first \<open>if\<close>/\<open>else if\<close> of the function: a stored id, then the ETag.\<close>

definition resolveStored :: "signals \<Rightarrow> resolution" where
  "resolveStored s =
     (let r0 = \<lparr>qx7Id = None, isReturning = False, persistenceMethod = ''new''\<rparr> in
      if truthy (clientQx7Id s) \<and> isValidQx7Id (clientQx7Id s) \<and> \<not> dataCleared s then
        r0\<lparr>qx7Id := clientQx7Id s, isReturning := True,
           persistenceMethod :=
             (if truthy (cognitoUserId s) \<and> num_truthy (swIntegrityScore s)
                   \<and> num_gt (swIntegrityScore s) (7/10)
              then ''cognito-localStorage-verified''
              else if num_truthy (swIntegrityScore s) \<and> num_gt (swIntegrityScore s) (7/10)
              then ''localStorage-verified''
              else if truthy (cognitoUserId s) then ''cognito-localStorage-verified''
              else ''localStorage'')\<rparr>
      else if truthy (etagFromHeader s) \<and> \<not> dataCleared s then
        (let cleanedEtag = cleanEtag (etagFromHeader s) in
         if truthy cleanedEtag \<and> isValidQx7Id cleanedEtag then
           r0\<lparr>qx7Id := cleanedEtag, isReturning := True,
              persistenceMethod :=
                (if num_truthy (swIntegrityScore s) \<and> num_gt (swIntegrityScore s) (5/10)
                 then ''etag-verified'' else ''etag'')\<rparr>
         else r0)
      else r0)"

definition resolveQx7IdAndMethod :: "crypto \<Rightarrow> signals \<Rightarrow> js_error + resolution" where
  "resolveQx7IdAndMethod c s =
     (let r = resolveStored s in
      if \<not> truthy (qx7Id r) then
        (if isIncognito s \<or> hasLimitedStorage s then
           bindE (generateQx7Id c ''random'' None) (\<lambda>i.
             Inr (r\<lparr>qx7Id := Some i, isReturning := False,
                    persistenceMethod :=
                      (if isIncognito s then ''incognito-random''
                       else ''limited-storage-random'')\<rparr>))
         else if truthy (cognitoUserId s) \<and> returningFromAuth s then
           bindE (generateQx7Id c ''cognito'' (cognitoUserId s)) (\<lambda>i.
             Inr (r\<lparr>qx7Id := Some i, isReturning := True,
                    persistenceMethod := ''cognito-post-auth-recovery''\<rparr>))
         else
           bindE (generateQx7Id c ''random'' None) (\<lambda>i.
             Inr (r\<lparr>qx7Id := Some i, isReturning := False, persistenceMethod := ''new''\<rparr>)))
      else Inr r)"

subsection \<open>Reading the request headers\<close>

text \<open>
  \<open>req.headers\<close> maps lower-case header names to \<open>string | string[] | undefined\<close>.
  \<open>parseFloat\<close> is the platform's function and is a parameter of the model.
\<close>

datatype header_value = Single string | Multiple "string list"

record request =
  headers :: "string \<Rightarrow> header_value option"
  query_rockmanId :: "string option"

definition toLowerChar :: "char \<Rightarrow> char" where
  "toLowerChar ch =
     (let n = (of_char ch :: nat) in if 65 \<le> n \<and> n \<le> 90 then char_of (n + 32) else ch)"

definition getHeaderName :: "string \<Rightarrow> string" where
  "getHeaderName name = map toLowerChar name"

text \<open>\<open>val[0]\<close> of an array: \<open>undefined\<close> when the array is empty.\<close>

definition firstOf :: "string list \<Rightarrow> string option" where
  "firstOf vs = (case vs of [] \<Rightarrow> None | v # _ \<Rightarrow> Some v)"

definition getBoolHeader :: "request \<Rightarrow> string \<Rightarrow> bool" where
  "getBoolHeader req header =
     (case headers req (getHeaderName header) of
        Some (Multiple vs) \<Rightarrow> firstOf vs = Some ''true''
      | Some (Single v) \<Rightarrow> v = ''true''
      | None \<Rightarrow> False)"

text \<open>\<open>parseFloat(undefined)\<close> parses the string \<open>"undefined"\<close>.\<close>

definition getNumericHeader :: "request \<Rightarrow> string \<Rightarrow> (string \<Rightarrow> jsnum) \<Rightarrow> jsnum option" where
  "getNumericHeader req header parseFn =
     (case headers req (getHeaderName header) of
        None \<Rightarrow> None
      | Some val \<Rightarrow>
          (let valueStr = (case val of Multiple vs \<Rightarrow> firstOf vs | Single v \<Rightarrow> Some v);
               parsed = parseFn (case valueStr of None \<Rightarrow> ''undefined'' | Some v \<Rightarrow> v)
           in if isNaN parsed then None else Some parsed))"

definition getStringHeader :: "request \<Rightarrow> string \<Rightarrow> string option" where
  "getStringHeader req header =
     (case headers req (getHeaderName header) of
        None \<Rightarrow> None
      | Some (Multiple vs) \<Rightarrow> firstOf vs
      | Some (Single v) \<Rightarrow> Some v)"

subsection \<open>The route \<open>GET /onboarding-step1\<close>\<close>

text \<open>The header extraction at the top of the handler.\<close>

definition extractSignals :: "(string \<Rightarrow> jsnum) \<Rightarrow> request \<Rightarrow> signals" where
  "extractSignals parseFloat req =
     \<lparr>isIncognito = getBoolHeader req ''x-incognito-mode'',
      hasLimitedStorage = getBoolHeader req ''x-limited-storage'',
      cognitoUserId = getStringHeader req ''x-cognito-user-id'',
      clientQx7Id = getStringHeader req ''x-qx7-id'',
      dataCleared = getBoolHeader req ''x-data-cleared'',
      swIntegrityScore = getNumericHeader req ''x-sw-integrity-score'' parseFloat,
      returningFromAuth = getBoolHeader req ''x-returning-from-auth'',
      etagFromHeader = getStringHeader req ''if-none-match''\<rparr>"

text \<open>
  A response: its status, the headers the handler passes to \<open>res.set\<close>, its body, and the
  analytics event the handler posts without waiting.
\<close>

datatype body =
    NoBody
  | IdentityJson string string bool
  | ErrorJson string string

record analytics_event =
  utm_cdn :: string
  event_name :: string
  event_id :: string
  other_info :: string
  persistence_method :: string

record response =
  status :: nat
  resHeaders :: "(string \<times> string) list"
  resBody :: body
  analytics :: "analytics_event option"

definition sendEventToAnalytickz ::
  "string \<Rightarrow> string \<Rightarrow> string \<Rightarrow> string \<Rightarrow> analytics_event option" where
  "sendEventToAnalytickz rockmanId i event method =
     (if i = [] then None
      else Some \<lparr>utm_cdn = rockmanId, event_name = ''filter-tag'', event_id = i,
                 other_info = event, persistence_method = method\<rparr>)"

text \<open>
  The handler ends a response in two ways. \<open>res.status(304).end()\<close> sends what was set.
  \<open>res.json\<close> hands the body to the framework's \<open>res.send\<close>, which asks \<open>req.fresh\<close>
  whether the client's copy is current: for a \<open>GET\<close> or \<open>HEAD\<close> request (the route takes
  no other) and a status that is 2xx or 304, the freshness test is applied to the request
  headers and the response's \<open>ETag\<close>; when it succeeds, \<open>res.send\<close> sets the status to 304
  and sends no body. The freshness test belongs to the framework, not to the repository,
  and is a parameter of the model. (The handler sets no \<open>Last-Modified\<close> header, so the
  test is given the \<open>ETag\<close> only.)
\<close>

type_synonym freshness = "(string \<Rightarrow> header_value option) \<Rightarrow> string option \<Rightarrow> bool"

definition res_get :: "response \<Rightarrow> string \<Rightarrow> string option" where
  "res_get res name = map_of (resHeaders res) name"

definition req_fresh :: "freshness \<Rightarrow> request \<Rightarrow> response \<Rightarrow> bool" where
  "req_fresh fresh req res =
     (if (200 \<le> status res \<and> status res < 300) \<or> status res = 304
      then fresh (headers req) (res_get res ''ETag'')
      else False)"

definition res_json :: "freshness \<Rightarrow> request \<Rightarrow> response \<Rightarrow> body \<Rightarrow> response" where
  "res_json fresh req res b =
     (if req_fresh fresh req res then res\<lparr>status := 304, resBody := NoBody\<rparr>
      else res\<lparr>resBody := b\<rparr>)"

text \<open>
  The body of the \<open>try\<close> block. \<open>qx7Id.substring\<close> in the log line throws a \<open>TypeError\<close>
  when the id is \<open>null\<close>.
\<close>

definition step1_try ::
  "crypto \<Rightarrow> (string \<Rightarrow> jsnum) \<Rightarrow> freshness \<Rightarrow> request \<Rightarrow> js_error + response" where
  "step1_try c parseFloat fresh req =
     (let rockmanId = query_rockmanId req;
          sig = extractSignals parseFloat req
      in bindE (resolveQx7IdAndMethod c sig) (\<lambda>r.
           let cleanedEtag = cleanEtag (etagFromHeader sig) in
           if truthy (etagFromHeader sig) \<and> cleanedEtag = qx7Id r \<and> isValidQx7Id cleanedEtag then
             Inr \<lparr>status = 304, resHeaders = [], resBody = NoBody, analytics = None\<rparr>
           else
             (case qx7Id r of
                None \<Rightarrow> Inl TypeError
              | Some i \<Rightarrow>
                  Inr (res_json fresh req
                         \<lparr>status = 200,
                          resHeaders =
                            [(''ETag'', [dquote] @ i @ [dquote]),
                             (''Cache-Control'', ''private, max-age=3600''),
                             (''x-qx7-id'', i),
                             (''x-persistence-method'', persistenceMethod r)],
                          resBody = NoBody,
                          analytics =
                            sendEventToAnalytickz
                              (case rockmanId of None \<Rightarrow> '''' | Some x \<Rightarrow> x) i
                              ''onboarding-step1'' (persistenceMethod r)\<rparr>
                         (IdentityJson i (persistenceMethod r) (isReturning r))))))"

text \<open>The handler: the \<open>try\<close> block, and the \<open>catch\<close> that answers 500 with a fresh id.\<close>

definition onboarding_step1 ::
  "crypto \<Rightarrow> (string \<Rightarrow> jsnum) \<Rightarrow> freshness \<Rightarrow> request \<Rightarrow> js_error + response" where
  "onboarding_step1 c parseFloat fresh req =
     (case step1_try c parseFloat fresh req of
        Inr res \<Rightarrow> Inr res
      | Inl e \<Rightarrow>
          bindE (generateQx7Id c ''random'' None) (\<lambda>i.
            Inr (res_json fresh req
                   \<lparr>status = 500, resHeaders = [], resBody = NoBody, analytics = None\<rparr>
                   (ErrorJson ''Internal server error'' i))))"

subsection \<open>The framework's freshness test\<close>

text \<open>
  The test that \<open>req.fresh\<close> applies in express 4: the function of the package \<open>fresh\<close>
  (version 0.5.2), on the request headers \<open>if-modified-since\<close>, \<open>if-none-match\<close> and
  \<open>cache-control\<close> and on the \<open>ETag\<close> of the response. It is the instance of the
  parameter \<open>fresh\<close> in the closed examples. Node gives each of the three headers as one
  string; a list is read as its first element. With \<open>If-Modified-Since\<close> and no
  \<open>Last-Modified\<close> header on the response, the response is stale. On a request without
  \<open>If-Modified-Since\<close> the later versions of the package give the same answer.
\<close>

definition headerText :: "header_value option \<Rightarrow> string option" where
  "headerText h =
     (case h of None \<Rightarrow> None | Some (Single v) \<Rightarrow> Some v | Some (Multiple vs) \<Rightarrow> firstOf vs)"

text \<open>\<open>str.substring(start, stop)\<close> for \<open>start \<le> stop\<close>.\<close>

definition substring :: "string \<Rightarrow> nat \<Rightarrow> nat \<Rightarrow> string" where
  "substring str start stop = take (stop - start) (drop start str)"

text \<open>
  \<open>parseTokenList\<close>: the loop over the characters of the header, with the index \<open>i\<close> and
  the variables \<open>start\<close>, \<open>end\<close> and \<open>list\<close>. A space moves the start of a token only
  while the token is empty; a comma ends a token.
\<close>

fun tokenLoop :: "string \<Rightarrow> string \<Rightarrow> nat \<Rightarrow> nat \<Rightarrow> nat \<Rightarrow> string list \<Rightarrow> string list" where
  "tokenLoop str [] i start stop acc = acc @ [substring str start stop]"
| "tokenLoop str (ch # rest) i start stop acc =
     (if ch = CHR 0x20 then
        (if start = stop then tokenLoop str rest (i + 1) (i + 1) (i + 1) acc
         else tokenLoop str rest (i + 1) start stop acc)
      else if ch = CHR 0x2C then
        tokenLoop str rest (i + 1) (i + 1) (i + 1) (acc @ [substring str start stop])
      else tokenLoop str rest (i + 1) start (i + 1) acc)"

definition parseTokenList :: "string \<Rightarrow> string list" where
  "parseTokenList str = tokenLoop str str 0 0 0 []"

text \<open>
  The regular expression for \<open>no-cache\<close> in \<open>Cache-Control\<close>: it matches when one of the
  parts between commas is \<open>no-cache\<close> with nothing but white space around it.
\<close>

fun splitOn :: "char \<Rightarrow> string \<Rightarrow> string list" where
  "splitOn sep [] = [[]]"
| "splitOn sep (ch # rest) =
     (if ch = sep then [] # splitOn sep rest
      else (case splitOn sep rest of
              [] \<Rightarrow> [[ch]]
            | seg # segs \<Rightarrow> (ch # seg) # segs))"

definition isSpaceChar :: "char \<Rightarrow> bool" where
  "isSpaceChar ch =
     (ch \<in> set [CHR 0x20, CHR 0x09, CHR 0x0A, CHR 0x0B, CHR 0x0C, CHR 0x0D, CHR 0xA0])"

definition trimSpace :: "string \<Rightarrow> string" where
  "trimSpace s = rev (dropWhile isSpaceChar (rev (dropWhile isSpaceChar s)))"

definition noCache :: "string \<Rightarrow> bool" where
  "noCache cacheControl =
     list_ex (\<lambda>seg. trimSpace seg = ''no-cache'') (splitOn (CHR 0x2C) cacheControl)"

definition etagMatches :: "string \<Rightarrow> string \<Rightarrow> bool" where
  "etagMatches etag noneMatch =
     list_ex (\<lambda>m. m = etag \<or> m = ''W/'' @ etag \<or> ''W/'' @ m = etag) (parseTokenList noneMatch)"

definition expressFresh :: freshness where
  "expressFresh reqHeaders etag =
     (let modifiedSince = headerText (reqHeaders ''if-modified-since'');
          noneMatch = headerText (reqHeaders ''if-none-match'');
          cacheControl = headerText (reqHeaders ''cache-control'')
      in if \<not> truthy modifiedSince \<and> \<not> truthy noneMatch then False
         else if (case cacheControl of None \<Rightarrow> False | Some cc \<Rightarrow> cc \<noteq> [] \<and> noCache cc)
         then False
         else if truthy noneMatch \<and> noneMatch \<noteq> Some ''*''
                 \<and> (case etag of
                        None \<Rightarrow> True
                      | Some t \<Rightarrow>
                          t = [] \<or> \<not> etagMatches t (case noneMatch of None \<Rightarrow> [] | Some n \<Rightarrow> n))
         then False
         else if truthy modifiedSince then False
         else True)"

text \<open>
  The three responses of a request that raises no exception: the handler's own 304, the
  200 with the JSON body, and the 304 that \<open>res.send\<close> makes of it when the request is
  fresh.
\<close>

definition notModified :: response where
  "notModified = \<lparr>status = 304, resHeaders = [], resBody = NoBody, analytics = None\<rparr>"

definition okResponse :: "string option \<Rightarrow> string \<Rightarrow> string \<Rightarrow> bool \<Rightarrow> response" where
  "okResponse rockmanId i method returning =
     \<lparr>status = 200,
      resHeaders =
        [(''ETag'', [dquote] @ i @ [dquote]),
         (''Cache-Control'', ''private, max-age=3600''),
         (''x-qx7-id'', i),
         (''x-persistence-method'', method)],
      resBody = IdentityJson i method returning,
      analytics =
        Some \<lparr>utm_cdn = (case rockmanId of None \<Rightarrow> '''' | Some x \<Rightarrow> x),
              event_name = ''filter-tag'', event_id = i,
              other_info = ''onboarding-step1'', persistence_method = method\<rparr>\<rparr>"

definition freshResponse :: "string option \<Rightarrow> string \<Rightarrow> string \<Rightarrow> bool \<Rightarrow> response" where
  "freshResponse rockmanId i method returning =
     (okResponse rockmanId i method returning)\<lparr>status := 304, resBody := NoBody\<rparr>"

subsection \<open>The branches of the resolver, named\<close>

text \<open>
  The conditions under which the first two branches of \<open>resolveQx7IdAndMethod\<close> supply the
  id, and the condition of the deterministic recovery: a cognito user id that is present
  (a non-empty string, as the source tests it), the flag \<open>returningFromAuth\<close>, and no earlier
  branch taken.
\<close>

definition trustedStored :: "signals \<Rightarrow> bool" where
  "trustedStored s = (isValidQx7Id (clientQx7Id s) \<and> \<not> dataCleared s)"

definition etagRecovered :: "signals \<Rightarrow> bool" where
  "etagRecovered s =
     (truthy (etagFromHeader s) \<and> \<not> dataCleared s \<and> isValidQx7Id (cleanEtag (etagFromHeader s)))"

definition recoveryApplies :: "signals \<Rightarrow> bool" where
  "recoveryApplies s =
     (truthy (cognitoUserId s) \<and> returningFromAuth s \<and> \<not> trustedStored s \<and> \<not> etagRecovered s
      \<and> \<not> isIncognito s \<and> \<not> hasLimitedStorage s)"

section \<open>Client: \<open>Qx7Storage\<close> (public/script.js)\<close>

subsection \<open>Backends and their outcomes\<close>

text \<open>
  The five names of \<open>STORAGE_PRIORITIES\<close>. The browser's stores are the environment: a
  call of an adapter settles to a value or throws (a rejected promise), and the
  orchestrator is modelled for every such outcome of every adapter.
\<close>

datatype backend = LocalStorage | SessionStorage | IndexedDB | Cookies | ServiceWorker

datatype 'a settled = Fulfilled 'a | Rejected

text \<open>
  The only mutable field of \<open>Qx7Storage\<close> is the list \<open>STORAGE_PRIORITIES\<close>. An
  orchestrator call returns its value, the object after the call, and the adapters it
  called, in order.
\<close>

record storage =
  STORAGE_PRIORITIES :: "backend list"

definition initialStorage :: storage where
  "initialStorage =
     \<lparr>STORAGE_PRIORITIES = [LocalStorage, SessionStorage, IndexedDB, Cookies, ServiceWorker]\<rparr>"

record 'a io =
  returned :: 'a
  after :: storage
  calls :: "backend list"

text \<open>
  \<open>Qx7Storage.isValidQx7Id\<close>: a string (not \<open>None\<close>), truthy, of length at least 16, that
  matches \<open>/^[a-f0-9]+$/i\<close>.
\<close>

definition storage_isValidQx7Id :: "string option \<Rightarrow> bool" where
  "storage_isValidQx7Id v =
     (case v of
        None \<Rightarrow> False
      | Some s \<Rightarrow> s \<noteq> [] \<and> 16 \<le> length s \<and> (s \<noteq> [] \<and> list_all isHexChar s))"

subsection \<open>\<open>getQx7Id\<close>\<close>

text \<open>
  The \<open>for ... of\<close> loop runs over the array that \<open>STORAGE_PRIORITIES\<close> held when the loop
  began (the \<open>filter\<close> in the \<open>catch\<close> assigns a new array), so the remaining methods are an
  argument of their own.
\<close>

fun getLoop ::
  "(backend \<Rightarrow> string option settled) \<Rightarrow> backend list \<Rightarrow> storage \<Rightarrow> backend list
    \<Rightarrow> string option io" where
  "getLoop env [] st cs = \<lparr>returned = None, after = st, calls = cs\<rparr>"
| "getLoop env (m # ms) st cs =
     (case env m of
        Fulfilled v \<Rightarrow>
          if truthy v \<and> storage_isValidQx7Id v
          then \<lparr>returned = v, after = st, calls = cs @ [m]\<rparr>
          else getLoop env ms st (cs @ [m])
      | Rejected \<Rightarrow>
          getLoop env ms
            (if m = IndexedDB
             then st\<lparr>STORAGE_PRIORITIES := filter (\<lambda>x. x \<noteq> IndexedDB) (STORAGE_PRIORITIES st)\<rparr>
             else st)
            (cs @ [m]))"

definition getQx7Id :: "(backend \<Rightarrow> string option settled) \<Rightarrow> storage \<Rightarrow> string option io" where
  "getQx7Id env st = getLoop env (STORAGE_PRIORITIES st) st []"

subsection \<open>\<open>setQx7Id\<close>\<close>

text \<open>
  \<open>options.priority\<close> defaults to \<open>"all"\<close>. The metadata (timestamp, ttl, version) is
  handed to the adapters and plays no part in the result. Every selected adapter is called
  before any result is looked at; \<open>Promise.allSettled\<close> never rejects.
\<close>

definition setQx7Id ::
  "(backend \<Rightarrow> bool settled) \<Rightarrow> storage \<Rightarrow> string option \<Rightarrow> string option \<Rightarrow> bool io" where
  "setQx7Id env st idArg option_priority =
     (if \<not> storage_isValidQx7Id idArg then \<lparr>returned = False, after = st, calls = []\<rparr>
      else
        (let priority = (case option_priority of None \<Rightarrow> ''all'' | Some p \<Rightarrow> p);
             storagePromises =
               (if priority = ''all'' \<or> priority = ''localStorage'' then [LocalStorage] else [])
               @ (if priority = ''all'' \<or> priority = ''sessionStorage''
                  then [SessionStorage] else [])
               @ (if (priority = ''all'' \<or> priority = ''indexedDB'')
                     \<and> IndexedDB \<in> set (STORAGE_PRIORITIES st)
                  then [IndexedDB] else [])
               @ (if priority = ''all'' \<or> priority = ''cookies'' then [Cookies] else [])
               @ (if priority = ''all'' \<or> priority = ''serviceWorker''
                  then [ServiceWorker] else []);
             results = map env storagePromises;
             successful = length (filter (\<lambda>result. result = Fulfilled True) results)
         in \<lparr>returned = 0 < successful, after = st, calls = storagePromises\<rparr>))"

subsection \<open>Sequences of orchestrator calls\<close>

datatype operation =
    Read "backend \<Rightarrow> string option settled"
  | Write "backend \<Rightarrow> bool settled" "string option" "string option"

fun perform :: "storage \<Rightarrow> operation \<Rightarrow> storage \<times> backend list" where
  "perform st (Read env) = (after (getQx7Id env st), calls (getQx7Id env st))"
| "perform st (Write env i p) = (after (setQx7Id env st i p), calls (setQx7Id env st i p))"

fun run :: "storage \<Rightarrow> operation list \<Rightarrow> storage \<times> backend list" where
  "run st [] = (st, [])"
| "run st (a # as) =
     (let (st1, c1) = perform st a; (st2, c2) = run st1 as in (st2, c1 @ c2))"

subsection \<open>\<open>detectQx7DataClearing\<close>\<close>

text \<open>
  What the probes find: the reads of the stored id, the two markers
  (\<open>getItem\<close> returns a string or \<open>null\<close>, or throws), the number of cache keys (or an
  exception), and the service worker: not supported, no registration, a registration, or
  an exception.
\<close>

datatype sw_state = Unsupported | Unregistered | Registered | SwThrows

record probes =
  storedReads :: "backend \<Rightarrow> string option settled"
  activeSession :: "string option settled"
  sessionStartTime :: "string option settled"
  cacheKeys :: "nat settled"
  serviceWorker :: sw_state

definition checkCacheStatus :: "nat settled \<Rightarrow> bool" where
  "checkCacheStatus k = (case k of Fulfilled n \<Rightarrow> n = 0 | Rejected \<Rightarrow> True)"

record detection =
  det_dataCleared :: bool
  confidence :: rat
  checks :: "bool list"
  clearedCount :: nat
  totalChecks :: nat

text \<open>
  \<open>postMessage\<close> returns \<open>undefined\<close>, so with a registration the fifth probe pushes
  \<open>!undefined\<close>, which is \<open>true\<close>. \<open>confidence\<close> is the quotient as a rational; the
  source's value is that quotient as a double. The two markers the function writes before
  it returns are not part of its result.
\<close>

definition detectQx7DataClearing :: "probes \<Rightarrow> storage \<Rightarrow> detection io" where
  "detectQx7DataClearing p st =
     (let r = getQx7Id (storedReads p) st;
          checks1 = [\<not> truthy (returned r)];
          checks2 = checks1
            @ [case activeSession p of Fulfilled v \<Rightarrow> \<not> truthy v | Rejected \<Rightarrow> True];
          checks3 = checks2
            @ [case sessionStartTime p of Fulfilled v \<Rightarrow> \<not> truthy v | Rejected \<Rightarrow> True];
          checks4 = checks3 @ [checkCacheStatus (cacheKeys p)];
          checks5 = checks4
            @ (case serviceWorker p of
                 Unsupported \<Rightarrow> []
               | Unregistered \<Rightarrow> []
               | Registered \<Rightarrow> [True]
               | SwThrows \<Rightarrow> [True]);
          cleared = length (filter (\<lambda>b. b) checks5)
      in \<lparr>returned =
            \<lparr>det_dataCleared = (2 \<le> cleared),
             confidence = of_nat cleared / of_nat (length checks5),
             checks = checks5,
             clearedCount = cleared,
             totalChecks = length checks5\<rparr>,
          after = after r, calls = calls r\<rparr>)"

subsection \<open>\<open>fetchEnhancedZkx\<close>\<close>

text \<open>
  One pass through the \<open>try\<close> block sees: the incognito detector's results (if there is
  a detector), the reads and probes of the storage, the outcome of the request (the
  \<open>fetch\<close> rejects, or a response with its \<open>ok\<close> flag and what \<open>response.json()\<close>
  gives), the outcomes of the writes, and the storage health string.
\<close>

record incognito_results =
  ir_isIncognito :: bool
  ir_hasLimitedStorage :: bool
  ir_sessionOnly :: bool

record server_data =
  d_qx7Id :: "string option"
  d_persistenceMethod :: "string option"
  d_isReturning :: "bool option"

datatype json_body = JsonInvalid | JsonNull | JsonObject server_data

datatype fetch_outcome = NetworkError | HttpResponse bool json_body

record attempt_env =
  incognitoResults :: "incognito_results option"
  readEnv :: "backend \<Rightarrow> string option settled"
  probeEnv :: probes
  fetched :: fetch_outcome
  writeEnv :: "backend \<Rightarrow> bool settled"
  health :: string

text \<open>A header value: a string, or \<open>String(x)\<close> of a boolean or of a number.\<close>

datatype header_text = Str string | StringOfBool bool | StringOfNum rat

datatype event =
    Request string "(string \<times> header_text) list"
  | SetQx7Id "string option" "backend list"
  | SyncWithOtherDomains "string option"
  | UpdateQx7IdImage
  | Sleep nat

record fetch_result =
  fr_dataCleared :: bool
  fr_data :: "server_data option"
  fr_confidence :: rat
  storageHealth :: string

definition maxRetries :: nat where
  "maxRetries = 3"

definition degraded :: fetch_result where
  "degraded =
     \<lparr>fr_dataCleared = True, fr_data = None, fr_confidence = 0, storageHealth = ''degraded''\<rparr>"

text \<open>\<open>handleRequest\<close>: the URL carries the fixed \<open>rockmanId\<close>.\<close>

definition ENDPOINT_1 :: string where
  "ENDPOINT_1 = ''/api/v1/estore/onboarding-step1''"

definition handleRequest :: "string \<Rightarrow> (string \<times> header_text) list \<Rightarrow> event" where
  "handleRequest endpoint hs = Request (endpoint @ ''?rockmanId='' @ ''1234567890'') hs"

definition requestHeaders ::
  "string option \<Rightarrow> detection \<Rightarrow> incognito_results option \<Rightarrow> (string \<times> header_text) list" where
  "requestHeaders storedQx7Id dataClearingResult incognito =
     [(''Content-Type'', Str ''application/json'')]
     @ (case storedQx7Id of
          None \<Rightarrow> []
        | Some i \<Rightarrow> if i = [] then [] else [(''X-Qx7-id'', Str i)])
     @ [(''X-Data-Cleared'', StringOfBool (det_dataCleared dataClearingResult)),
        (''X-Data-Clearing-Confidence'', StringOfNum (confidence dataClearingResult))]
     @ (case incognito of
          None \<Rightarrow> []
        | Some ir \<Rightarrow>
            [(''X-Incognito-Mode'', StringOfBool (ir_isIncognito ir)),
             (''X-Limited-Storage'', StringOfBool (ir_hasLimitedStorage ir)),
             (''X-Session-Only'', StringOfBool (ir_sessionOnly ir))])"

text \<open>
  The \<open>try\<close> block. It throws when the request fails, when the response is not \<open>ok\<close>,
  when the body is not JSON, and when the body is \<open>null\<close> (reading \<open>data.qx7Id\<close>);
  any other JSON value without a field \<open>qx7Id\<close> is an object whose \<open>d_qx7Id\<close> is \<open>None\<close>.
  The two reads that \<open>Promise.all\<close> starts together are taken one after the other, and the
  incognito detector, which is not part of the repository, returns its results.
  \<open>setQx7Id\<close>, \<open>syncWithOtherDomains\<close>, \<open>updateQx7IdImage\<close> and
  \<open>getStorageHealthStatus\<close> catch every exception of their own; the last two are
  recorded as an event and as the string the environment gives.
\<close>

definition attemptBody ::
  "attempt_env \<Rightarrow> storage \<Rightarrow> (js_error + fetch_result) \<times> storage \<times> event list" where
  "attemptBody e st =
     (let rd = getQx7Id (readEnv e) st;
          dc = detectQx7DataClearing (probeEnv e) (after rd);
          st' = after dc;
          request =
            handleRequest ENDPOINT_1
              (requestHeaders (returned rd) (returned dc) (incognitoResults e))
      in case fetched e of
           NetworkError \<Rightarrow> (Inl NetworkFailure, st', [request])
         | HttpResponse ok json \<Rightarrow>
             if \<not> ok then (Inl HttpError, st', [request])
             else
               (case json of
                  JsonInvalid \<Rightarrow> (Inl SyntaxError, st', [request])
                | JsonNull \<Rightarrow> (Inl TypeError, st', [request])
                | JsonObject d \<Rightarrow>
                    (let incognito =
                           (case incognitoResults e of
                              None \<Rightarrow> False
                            | Some ir \<Rightarrow> ir_isIncognito ir);
                         persisted =
                           (if \<not> incognito then
                              [SetQx7Id (d_qx7Id d)
                                 (calls (setQx7Id (writeEnv e) st' (d_qx7Id d) (Some ''all''))),
                               SyncWithOtherDomains (d_qx7Id d)]
                            else [])
                     in (Inr \<lparr>fr_dataCleared = det_dataCleared (returned dc),
                              fr_data = Some d,
                              fr_confidence = confidence (returned dc),
                              storageHealth = health e\<rparr>,
                         st', [request] @ persisted @ [UpdateQx7IdImage]))))"

text \<open>
  The \<open>while\<close> loop, with the events so far. The environment of a pass is indexed by
  the value of \<open>attempt\<close> when the pass begins. Leaving the loop by its condition returns
  \<open>undefined\<close>, here \<open>None\<close>.
\<close>

function fetchLoop ::
  "(nat \<Rightarrow> attempt_env) \<Rightarrow> nat \<Rightarrow> storage \<Rightarrow> event list
    \<Rightarrow> fetch_result option \<times> storage \<times> event list" where
  "fetchLoop env attempt st tr =
     (if attempt < maxRetries then
        (case attemptBody (env attempt) st of
           (Inr res, st', evs) \<Rightarrow> (Some res, st', tr @ evs)
         | (Inl err, st', evs) \<Rightarrow>
             (if maxRetries \<le> attempt + 1 then (Some degraded, st', tr @ evs)
              else fetchLoop env (attempt + 1) st'
                     (tr @ evs @ [Sleep (2 ^ (attempt + 1) * 1000)])))
      else (None, st, tr))"
  by pat_completeness auto
termination
  by (relation "measure (\<lambda>(env, attempt, st, tr). maxRetries - attempt)") auto

declare fetchLoop.simps [simp del]

definition fetchEnhancedZkx ::
  "(nat \<Rightarrow> attempt_env) \<Rightarrow> storage \<Rightarrow> fetch_result option \<times> storage \<times> event list" where
  "fetchEnhancedZkx env st = fetchLoop env 0 st []"

text \<open>Reading a run of events: the requests and waits in order, and the ids stored.\<close>

fun timeline :: "event list \<Rightarrow> nat option list" where
  "timeline [] = []"
| "timeline (Request ep hs # es) = None # timeline es"
| "timeline (Sleep ms # es) = Some ms # timeline es"
| "timeline (e # es) = timeline es"

fun storedIds :: "event list \<Rightarrow> string option list" where
  "storedIds [] = []"
| "storedIds (SetQx7Id i bs # es) = i # storedIds es"
| "storedIds (SyncWithOtherDomains i # es) = i # storedIds es"
| "storedIds (e # es) = storedIds es"

text \<open>
  An attempt fails on a network failure, on an HTTP status that is not ok, and on a body
  that is not JSON or is \<open>null\<close>.
\<close>

fun requestFails :: "fetch_outcome \<Rightarrow> bool" where
  "requestFails NetworkError = True"
| "requestFails (HttpResponse ok json) =
     (\<not> ok \<or> (case json of JsonObject d \<Rightarrow> False | _ \<Rightarrow> True))"

text \<open>
  The parts of one pass that do not depend on the response: the storage after the signals
  were gathered, and the request that is sent. \<open>serverId env k i\<close> says that \<open>i\<close> is the id
  in the body of the response to attempt \<open>k\<close>.
\<close>

definition stateAfterSignals :: "attempt_env \<Rightarrow> storage \<Rightarrow> storage" where
  "stateAfterSignals e st =
     after (detectQx7DataClearing (probeEnv e) (after (getQx7Id (readEnv e) st)))"

definition requestOf :: "attempt_env \<Rightarrow> storage \<Rightarrow> event" where
  "requestOf e st =
     handleRequest ENDPOINT_1
       (requestHeaders (returned (getQx7Id (readEnv e) st))
          (returned (detectQx7DataClearing (probeEnv e) (after (getQx7Id (readEnv e) st))))
          (incognitoResults e))"

definition serverId :: "(nat \<Rightarrow> attempt_env) \<Rightarrow> nat \<Rightarrow> string option \<Rightarrow> bool" where
  "serverId env k i =
     (case fetched (env k) of
        HttpResponse ok (JsonObject d) \<Rightarrow> ok \<and> i = d_qx7Id d
      | _ \<Rightarrow> False)"

section \<open>Example inputs\<close>

text \<open>
  Concrete inputs for the closed examples below. \<open>exampleCrypto\<close> stands in for the
  platform's crypto library (its hash is not SHA-256) and \<open>exampleParseFloat\<close> for
  \<open>parseFloat\<close> on the two strings the examples use.
\<close>

definition exampleCrypto :: crypto where
  "exampleCrypto =
     \<lparr>entropy = (\<lambda>i. of_nat (17 * i + 3)),
      sha256 = (\<lambda>u. of_nat (length u + 1)
                  * 0x9E3779B97F4A7C15F39CC0605CEDC8341082276BF3A27251F86C6A11D0C18E95)\<rparr>"

definition exampleParseFloat :: "string \<Rightarrow> jsnum" where
  "exampleParseFloat v =
     (if v = ''0.9'' then Finite (9/10) else if v = ''0.6'' then Finite (6/10) else NaN)"

definition exampleSignals :: signals where
  "exampleSignals =
     \<lparr>isIncognito = False, hasLimitedStorage = False, cognitoUserId = None,
      clientQx7Id = None, dataCleared = False, swIntegrityScore = None,
      returningFromAuth = False, etagFromHeader = None\<rparr>"

definition exampleStoredRequest :: request where
  "exampleStoredRequest =
     \<lparr>headers = map_of
        [(''if-none-match'', Single ([dquote] @ ''0123456789abcdef'' @ [dquote])),
         (''x-qx7-id'', Single ''0123456789abcdef''),
         (''x-data-cleared'', Single ''false'')],
      query_rockmanId = Some ''1234567890''\<rparr>"

definition exampleEtagRequest :: request where
  "exampleEtagRequest =
     \<lparr>headers = map_of
        [(''if-none-match'', Single ([dquote] @ ''0123456789abcdef'' @ [dquote])),
         (''x-sw-integrity-score'', Single ''0.6'')],
      query_rockmanId = Some ''1234567890''\<rparr>"

definition exampleEmptyRequest :: request where
  "exampleEmptyRequest = \<lparr>headers = map_of [], query_rockmanId = None\<rparr>"

text \<open>
  Two conditional requests that the handler's own check does not match: the wildcard, and
  a weak tag that names the stored client id.
\<close>

definition exampleStarRequest :: request where
  "exampleStarRequest =
     \<lparr>headers = map_of [(''if-none-match'', Single ''*'')], query_rockmanId = None\<rparr>"

definition exampleWeakRequest :: request where
  "exampleWeakRequest =
     \<lparr>headers = map_of
        [(''if-none-match'', Single (''W/'' @ [dquote] @ ''0123456789abcdef'' @ [dquote])),
         (''x-qx7-id'', Single ''0123456789abcdef'')],
      query_rockmanId = None\<rparr>"

text \<open>
  Outcomes of the browser's stores for the examples: a write in which the versioned
  database rejects and only the cookie write succeeds; reads that find nothing, with and
  without a failing versioned database; probes with exactly two, and exactly one, positive
  results out of five; and a network that is down at every attempt.
\<close>

definition exampleWrites :: "backend \<Rightarrow> bool settled" where
  "exampleWrites b =
     (if b = IndexedDB then Rejected else if b = Cookies then Fulfilled True
      else Fulfilled False)"

definition exampleEmptyReads :: "backend \<Rightarrow> string option settled" where
  "exampleEmptyReads b = Fulfilled None"

definition exampleFailingReads :: "backend \<Rightarrow> string option settled" where
  "exampleFailingReads b = (if b = IndexedDB then Rejected else Fulfilled None)"

definition exampleStoredReads :: "backend \<Rightarrow> string option settled" where
  "exampleStoredReads b =
     (if b = Cookies then Fulfilled (Some ''0123456789abcdef'') else Fulfilled None)"

definition exampleTwoOfFive :: probes where
  "exampleTwoOfFive =
     \<lparr>storedReads = exampleStoredReads,
      activeSession = Fulfilled (Some ''active''),
      sessionStartTime = Fulfilled (Some ''1700000000000''),
      cacheKeys = Fulfilled 0,
      serviceWorker = Registered\<rparr>"

definition exampleOneOfFive :: probes where
  "exampleOneOfFive =
     \<lparr>storedReads = exampleStoredReads,
      activeSession = Fulfilled (Some ''active''),
      sessionStartTime = Fulfilled (Some ''1700000000000''),
      cacheKeys = Fulfilled 2,
      serviceWorker = Registered\<rparr>"

definition exampleTwoOfFour :: probes where
  "exampleTwoOfFour =
     \<lparr>storedReads = exampleEmptyReads,
      activeSession = Fulfilled (Some ''active''),
      sessionStartTime = Rejected,
      cacheKeys = Fulfilled 2,
      serviceWorker = Unsupported\<rparr>"

text \<open>
  No stored id and no active-session marker, the other two probes negative and no service
  worker: two positive probes of four. And a stored id, both markers and a cache, with a
  service worker whose probe throws: one positive probe of five.
\<close>

definition exampleNoIdNoSession :: probes where
  "exampleNoIdNoSession =
     \<lparr>storedReads = exampleEmptyReads,
      activeSession = Fulfilled None,
      sessionStartTime = Fulfilled (Some ''1700000000000''),
      cacheKeys = Fulfilled 2,
      serviceWorker = Unsupported\<rparr>"

definition exampleWorkerThrows :: probes where
  "exampleWorkerThrows =
     \<lparr>storedReads = exampleStoredReads,
      activeSession = Fulfilled (Some ''active''),
      sessionStartTime = Fulfilled (Some ''1700000000000''),
      cacheKeys = Fulfilled 2,
      serviceWorker = SwThrows\<rparr>"

definition exampleOffline :: "nat \<Rightarrow> attempt_env" where
  "exampleOffline k =
     \<lparr>incognitoResults = None,
      readEnv = exampleStoredReads,
      probeEnv = exampleOneOfFive,
      fetched = NetworkError,
      writeEnv = exampleWrites,
      health = ''unknown''\<rparr>"

section \<open>Identifiers minted by the server are valid\<close>

lemma hexDigit_table: "list_all (\<lambda>n. isHexChar (hexDigit n)) [0..<16]"
  by (simp add: upt_rec hexDigit_def isHexChar_def)

lemma hexDigit_isHexChar: "n < 16 \<Longrightarrow> isHexChar (hexDigit n)"
  using hexDigit_table by (simp add: list_all_iff)

lemma unat_byte_div16: "unat (b :: 8 word) div 16 < 16"
proof -
  have "unat b < 256" using unsigned_less [of b] by simp
  then show ?thesis by simp
qed

lemma hexByte_hex: "list_all isHexChar (hexByte b)"
  by (simp add: hexByte_def hexDigit_isHexChar unat_byte_div16)

lemma hexByte_length: "length (hexByte b) = 2"
  by (simp add: hexByte_def)

lemma toHex_hex: "list_all isHexChar (toHex bs)"
  by (induction bs) (simp_all add: toHex_def hexByte_hex)

lemma toHex_length: "length (toHex bs) = 2 * length bs"
  by (induction bs) (simp_all add: toHex_def hexByte_length)

lemma random_id_valid: "isValidQx7Id (Some (toHex (randomBytes c 16)))"
proof -
  have "length (toHex (randomBytes c 16)) = 32"
    by (simp add: toHex_length randomBytes_def)
  then show ?thesis
    by (auto simp: isValidQx7Id_def toHex_hex)
qed

lemma digest_length: "length (digest w) = 32"
  by (simp add: digest_def)

lemma list_all_take: "list_all P xs \<Longrightarrow> list_all P (take n xs)"
  by (simp add: list_all_iff) (meson in_set_takeD)

lemma cognito_id_valid: "isValidQx7Id (Some (take 32 (toHex (digest w))))"
proof -
  have "length (take 32 (toHex (digest w))) = 32"
    by (simp add: toHex_length digest_length)
  moreover have "list_all isHexChar (take 32 (toHex (digest w)))"
    by (rule list_all_take) (rule toHex_hex)
  ultimately show ?thesis
    by (auto simp: isValidQx7Id_def)
qed

lemma valid_truthy: "isValidQx7Id v \<Longrightarrow> truthy v"
  by (auto simp: isValidQx7Id_def truthy_def split: option.splits if_splits)

lemma valid_nonempty: "isValidQx7Id (Some i) \<Longrightarrow> i \<noteq> []"
  by (auto simp: isValidQx7Id_def)

text \<open>A number above a non-negative literal is truthy, so the truthiness guard before the comparison is redundant.\<close>

lemma gt_truthy: "0 \<le> c \<Longrightarrow> num_gt x c \<Longrightarrow> num_truthy x"
  by (cases "(x, c)" rule: num_gt.cases) auto

section \<open>The resolver, branch by branch\<close>

lemma resolveStored_cases:
  "resolveStored s =
     (if trustedStored s then
        \<lparr>qx7Id = clientQx7Id s, isReturning = True,
         persistenceMethod =
           (if truthy (cognitoUserId s) \<and> num_gt (swIntegrityScore s) (7/10)
            then ''cognito-localStorage-verified''
            else if num_gt (swIntegrityScore s) (7/10) then ''localStorage-verified''
            else if truthy (cognitoUserId s) then ''cognito-localStorage-verified''
            else ''localStorage'')\<rparr>
      else if etagRecovered s then
        \<lparr>qx7Id = cleanEtag (etagFromHeader s), isReturning = True,
         persistenceMethod =
           (if num_gt (swIntegrityScore s) (5/10) then ''etag-verified'' else ''etag'')\<rparr>
      else \<lparr>qx7Id = None, isReturning = False, persistenceMethod = ''new''\<rparr>)"
proof -
  have t7: "(num_truthy (swIntegrityScore s) \<and> num_gt (swIntegrityScore s) (7/10))
        = num_gt (swIntegrityScore s) (7/10)"
    using gt_truthy [of "7/10" "swIntegrityScore s"] by auto
  have t5: "(num_truthy (swIntegrityScore s) \<and> num_gt (swIntegrityScore s) (5/10))
        = num_gt (swIntegrityScore s) (5/10)"
    using gt_truthy [of "5/10" "swIntegrityScore s"] by auto
  have v: "\<And>v. (truthy v \<and> isValidQx7Id v) = isValidQx7Id v"
    using valid_truthy by auto
  show ?thesis
    unfolding resolveStored_def trustedStored_def etagRecovered_def Let_def t7 t5
    by (auto simp: v valid_truthy)
qed

lemma resolveStored_truthy:
  "truthy (qx7Id (resolveStored s)) = (trustedStored s \<or> etagRecovered s)"
  by (auto simp: resolveStored_cases truthy_def trustedStored_def etagRecovered_def
      dest: valid_truthy)

lemma resolve_cases:
  "resolveQx7IdAndMethod c s =
     Inr (if trustedStored s \<or> etagRecovered s then resolveStored s
          else if isIncognito s \<or> hasLimitedStorage s then
            \<lparr>qx7Id = Some (toHex (randomBytes c 16)), isReturning = False,
             persistenceMethod =
               (if isIncognito s then ''incognito-random'' else ''limited-storage-random'')\<rparr>
          else if truthy (cognitoUserId s) \<and> returningFromAuth s then
            \<lparr>qx7Id = Some (take 32 (toHex (digest (sha256 c (the (cognitoUserId s)))))),
             isReturning = True, persistenceMethod = ''cognito-post-auth-recovery''\<rparr>
          else
            \<lparr>qx7Id = Some (toHex (randomBytes c 16)), isReturning = False,
             persistenceMethod = ''new''\<rparr>)"
proof (cases "trustedStored s \<or> etagRecovered s")
  case True
  then show ?thesis
    by (simp add: resolveQx7IdAndMethod_def Let_def resolveStored_truthy)
next
  case False
  then have f: "\<not> truthy (qx7Id (resolveStored s))"
    by (simp add: resolveStored_truthy)
  from False have r0:
    "resolveStored s = \<lparr>qx7Id = None, isReturning = False, persistenceMethod = ''new''\<rparr>"
    by (simp add: resolveStored_cases)
  show ?thesis
  proof (cases "cognitoUserId s")
    case None
    with f False r0 show ?thesis
      by (simp add: resolveQx7IdAndMethod_def Let_def generateQx7Id_def bindE_def truthy_def)
  next
    case (Some u)
    with f False r0 show ?thesis
      by (simp add: resolveQx7IdAndMethod_def Let_def generateQx7Id_def bindE_def)
  qed
qed

lemma resolve_returns_valid:
  "\<exists>r i. resolveQx7IdAndMethod c s = Inr r \<and> qx7Id r = Some i \<and> isValidQx7Id (Some i)"
proof -
  have stored: "trustedStored s \<or> etagRecovered s \<Longrightarrow> isValidQx7Id (qx7Id (resolveStored s))"
    by (auto simp: resolveStored_cases trustedStored_def etagRecovered_def)
  obtain r where r: "resolveQx7IdAndMethod c s = Inr r" and v: "isValidQx7Id (qx7Id r)"
    using stored by (simp add: resolve_cases random_id_valid cognito_id_valid)
  from v obtain i where "qx7Id r = Some i"
    by (cases "qx7Id r") (simp_all add: isValidQx7Id_def)
  with r v show ?thesis by auto
qed

text \<open>Evaluation of the examples.\<close>

lemma example_random_id:
  "toHex (randomBytes exampleCrypto 16) = ''031425364758697a8b9cadbecfe0f102''"
  by (simp add: exampleCrypto_def randomBytes_def toHex_def hexByte_def hexDigit_def upt_rec)

lemma example_cognito_id:
  "take 32 (toHex (digest (sha256 exampleCrypto ''user-1''))) = ''538454127b096499a94942a28a80796c''"
  by (simp add: exampleCrypto_def digest_def toHex_def hexByte_def hexDigit_def upt_rec)

lemmas example_eval =
  extractSignals_def getStringHeader_def getBoolHeader_def getNumericHeader_def
  getHeaderName_def toLowerChar_def firstOf_def exampleParseFloat_def
  cleanEtag_def dquote_def isValidQx7Id_def isHexChar_def truthy_def
  trustedStored_def etagRecovered_def exampleSignals_def

section \<open>Claims about the resolver\<close>

text \<open>
  C1. For every signal bundle whose \<open>clientQx7Id\<close> is a string that passes the validator and
  whose \<open>dataCleared\<close> is false, the resolver returns exactly that id with
  \<open>isReturning = true\<close>, and the method follows the table: cognito user id present and
  integrity score above 0.7 gives \<open>cognito-localStorage-verified\<close>; only the score above 0.7
  gives \<open>localStorage-verified\<close>; only the cognito user id gives
  \<open>cognito-localStorage-verified\<close>; neither gives \<open>localStorage\<close>. A cognito user id is
  present when it is a non-empty string, which is what the source tests; a missing score is
  not above 0.7.
\<close>

theorem trusted_stored_id:
  assumes "isValidQx7Id (clientQx7Id s)" and "\<not> dataCleared s"
  shows "\<exists>m. resolveQx7IdAndMethod c s
            = Inr \<lparr>qx7Id = clientQx7Id s, isReturning = True, persistenceMethod = m\<rparr>
     \<and> (truthy (cognitoUserId s) \<and> num_gt (swIntegrityScore s) (7/10)
          \<longrightarrow> m = ''cognito-localStorage-verified'')
     \<and> (\<not> truthy (cognitoUserId s) \<and> num_gt (swIntegrityScore s) (7/10)
          \<longrightarrow> m = ''localStorage-verified'')
     \<and> (truthy (cognitoUserId s) \<and> \<not> num_gt (swIntegrityScore s) (7/10)
          \<longrightarrow> m = ''cognito-localStorage-verified'')
     \<and> (\<not> truthy (cognitoUserId s) \<and> \<not> num_gt (swIntegrityScore s) (7/10)
          \<longrightarrow> m = ''localStorage'')"
proof -
  from assms have t: "trustedStored s" by (simp add: trustedStored_def)
  then have "resolveQx7IdAndMethod c s = Inr (resolveStored s)"
    by (simp add: resolve_cases)
  with t show ?thesis by (simp add: resolveStored_cases)
qed

theorem trusted_stored_id_witness:
  "isValidQx7Id (Some ''0123456789abcdef'')
   \<and> resolveQx7IdAndMethod exampleCrypto
       (exampleSignals\<lparr>clientQx7Id := Some ''0123456789abcdef'',
                       swIntegrityScore := Some (Finite (9/10))\<rparr>)
     = Inr \<lparr>qx7Id = Some ''0123456789abcdef'', isReturning = True,
            persistenceMethod = ''localStorage-verified''\<rparr>"
  using trusted_stored_id [of "exampleSignals\<lparr>clientQx7Id := Some ''0123456789abcdef'',
                       swIntegrityScore := Some (Finite (9/10))\<rparr>" exampleCrypto]
  by (simp add: isValidQx7Id_def isHexChar_def truthy_def exampleSignals_def)

text \<open>
  C2. For every combination of the fields of the signal bundle, present or missing, the
  resolver returns (it raises no exception) an id that is not null and passes the
  validator: a string of at least 16 characters, all of them hexadecimal digits.
\<close>

theorem resolve_total_valid:
  "\<exists>r i. resolveQx7IdAndMethod c s = Inr r \<and> qx7Id r = Some i
         \<and> isValidQx7Id (Some i) \<and> 16 \<le> length i \<and> list_all isHexChar i"
proof -
  obtain r i where "resolveQx7IdAndMethod c s = Inr r" "qx7Id r = Some i" "isValidQx7Id (Some i)"
    using resolve_returns_valid by blast
  then show ?thesis
    by (auto simp: isValidQx7Id_def split: if_splits)
qed

theorem resolve_total_valid_witness:
  "resolveQx7IdAndMethod exampleCrypto exampleSignals
     = Inr \<lparr>qx7Id = Some ''031425364758697a8b9cadbecfe0f102'', isReturning = False,
            persistenceMethod = ''new''\<rparr>
   \<and> isValidQx7Id (Some ''031425364758697a8b9cadbecfe0f102'')"
  using resolve_total_valid [of exampleCrypto exampleSignals]
  by (auto simp: resolve_cases example_random_id example_eval)

text \<open>
  C3, as stated: for every input with \<open>isIncognito = true\<close>, whatever the other signals,
  the resolver returns \<open>isReturning = false\<close>, a method containing \<open>incognito\<close>, and an id
  that differs from the supplied client id. This fails: a valid stored id with
  \<open>dataCleared = false\<close> is taken by the first branch before the incognito flag is looked at.
\<close>

theorem incognito_counterexample:
  "isIncognito (exampleSignals\<lparr>isIncognito := True, clientQx7Id := Some ''0123456789abcdef''\<rparr>)
   \<and> resolveQx7IdAndMethod exampleCrypto
       (exampleSignals\<lparr>isIncognito := True, clientQx7Id := Some ''0123456789abcdef''\<rparr>)
     = Inr \<lparr>qx7Id = Some ''0123456789abcdef'', isReturning = True,
            persistenceMethod = ''localStorage''\<rparr>
   \<and> \<not> sublist ''incognito'' ''localStorage''"
  by (simp add: resolveQx7IdAndMethod_def resolveStored_def isValidQx7Id_def isHexChar_def
        truthy_def sublist_Cons_right exampleSignals_def)

text \<open>
  C3, amended: for every input with \<open>isIncognito = true\<close> in which neither the stored id is
  trusted nor an ETag is recovered, the resolver returns \<open>isReturning = false\<close>, the method
  \<open>incognito-random\<close> (which contains \<open>incognito\<close>), and as id the freshly minted random
  value, the hexadecimal form of 16 random bytes, whatever client id was supplied.
\<close>

theorem incognito_fresh_id:
  assumes "isIncognito s" and "\<not> trustedStored s" and "\<not> etagRecovered s"
  shows "resolveQx7IdAndMethod c s
           = Inr \<lparr>qx7Id = Some (toHex (randomBytes c 16)), isReturning = False,
                  persistenceMethod = ''incognito-random''\<rparr>
         \<and> sublist ''incognito'' ''incognito-random''"
  using assms by (simp add: resolve_cases sublist_Cons_right)

theorem incognito_fresh_id_witness:
  "isIncognito (exampleSignals\<lparr>isIncognito := True, clientQx7Id := Some ''0123456789abcdef'',
                               dataCleared := True\<rparr>)
   \<and> \<not> trustedStored (exampleSignals\<lparr>isIncognito := True,
                        clientQx7Id := Some ''0123456789abcdef'', dataCleared := True\<rparr>)
   \<and> \<not> etagRecovered (exampleSignals\<lparr>isIncognito := True,
                        clientQx7Id := Some ''0123456789abcdef'', dataCleared := True\<rparr>)
   \<and> resolveQx7IdAndMethod exampleCrypto
       (exampleSignals\<lparr>isIncognito := True, clientQx7Id := Some ''0123456789abcdef'',
                       dataCleared := True\<rparr>)
     = Inr \<lparr>qx7Id = Some ''031425364758697a8b9cadbecfe0f102'', isReturning = False,
            persistenceMethod = ''incognito-random''\<rparr>"
  using incognito_fresh_id [of "exampleSignals\<lparr>isIncognito := True,
      clientQx7Id := Some ''0123456789abcdef'', dataCleared := True\<rparr>" exampleCrypto]
  by (simp add: example_random_id example_eval)

text \<open>
  C4. Whenever the deterministic recovery applies (cognito user id present,
  \<open>returningFromAuth\<close> true, no earlier branch taken), the id is the hexadecimal form of
  the SHA-256 digest of the cognito user id, cut to 32 characters, with
  \<open>isReturning = true\<close> and the method \<open>cognito-post-auth-recovery\<close>; two calls in which
  the recovery applies and the cognito user id is the same return the same result, whatever
  the other signals are.
\<close>

theorem deterministic_recovery:
  "(recoveryApplies s \<and> cognitoUserId s = Some u \<longrightarrow>
      resolveQx7IdAndMethod c s
        = Inr \<lparr>qx7Id = Some (take 32 (toHex (digest (sha256 c u)))), isReturning = True,
               persistenceMethod = ''cognito-post-auth-recovery''\<rparr>)
   \<and> (recoveryApplies s \<and> recoveryApplies s' \<and> cognitoUserId s = cognitoUserId s' \<longrightarrow>
      resolveQx7IdAndMethod c s = resolveQx7IdAndMethod c s')"
  by (auto simp: resolve_cases recoveryApplies_def)

theorem deterministic_recovery_witness:
  "recoveryApplies (exampleSignals\<lparr>cognitoUserId := Some ''user-1'', returningFromAuth := True\<rparr>)
   \<and> recoveryApplies (exampleSignals\<lparr>cognitoUserId := Some ''user-1'', returningFromAuth := True,
        clientQx7Id := Some ''0123456789abcdef'', dataCleared := True,
        swIntegrityScore := Some (Finite (9/10)), etagFromHeader := Some ''fedcba9876543210''\<rparr>)
   \<and> resolveQx7IdAndMethod exampleCrypto
        (exampleSignals\<lparr>cognitoUserId := Some ''user-1'', returningFromAuth := True\<rparr>)
      = Inr \<lparr>qx7Id = Some ''538454127b096499a94942a28a80796c'', isReturning = True,
             persistenceMethod = ''cognito-post-auth-recovery''\<rparr>
   \<and> resolveQx7IdAndMethod exampleCrypto
        (exampleSignals\<lparr>cognitoUserId := Some ''user-1'', returningFromAuth := True,
          clientQx7Id := Some ''0123456789abcdef'', dataCleared := True,
          swIntegrityScore := Some (Finite (9/10)), etagFromHeader := Some ''fedcba9876543210''\<rparr>)
      = Inr \<lparr>qx7Id = Some ''538454127b096499a94942a28a80796c'', isReturning = True,
             persistenceMethod = ''cognito-post-auth-recovery''\<rparr>"
proof -
  let ?a = "exampleSignals\<lparr>cognitoUserId := Some ''user-1'', returningFromAuth := True\<rparr>"
  let ?b = "exampleSignals\<lparr>cognitoUserId := Some ''user-1'', returningFromAuth := True,
        clientQx7Id := Some ''0123456789abcdef'', dataCleared := True,
        swIntegrityScore := Some (Finite (9/10)), etagFromHeader := Some ''fedcba9876543210''\<rparr>"
  have a: "recoveryApplies ?a" by (simp add: recoveryApplies_def example_eval)
  have b: "recoveryApplies ?b" by (simp add: recoveryApplies_def example_eval)
  have u: "cognitoUserId ?a = Some ''user-1''" "cognitoUserId ?b = cognitoUserId ?a"
    by (simp_all add: exampleSignals_def)
  from a b u deterministic_recovery [of ?a "''user-1''" exampleCrypto ?b]
  show ?thesis by (auto simp: example_cognito_id)
qed

section \<open>Claims about the route \<open>onboarding-step1\<close>\<close>

lemma cleanEtag_truthy: "cleanEtag e = Some i \<Longrightarrow> truthy e"
  by (auto simp: cleanEtag_def truthy_def split: option.splits if_splits)

lemma step1_cases:
  assumes "resolveQx7IdAndMethod c (extractSignals pf req) = Inr r" and "qx7Id r = Some i"
    and "isValidQx7Id (Some i)"
  shows "onboarding_step1 c pf fresh req =
     Inr (if cleanEtag (getStringHeader req ''if-none-match'') = Some i
          then notModified
          else if fresh (headers req) (Some ([dquote] @ i @ [dquote]))
          then freshResponse (query_rockmanId req) i (persistenceMethod r) (isReturning r)
          else okResponse (query_rockmanId req) i (persistenceMethod r) (isReturning r))"
proof -
  have e: "etagFromHeader (extractSignals pf req) = getStringHeader req ''if-none-match''"
    by (simp add: extractSignals_def)
  from assms(3) have ne: "i \<noteq> []" by (rule valid_nonempty)
  show ?thesis
    using assms ne cleanEtag_truthy [of "getStringHeader req ''if-none-match''" i]
    by (auto simp: onboarding_step1_def step1_try_def bindE_def Let_def e notModified_def
        okResponse_def freshResponse_def sendEventToAnalytickz_def res_json_def req_fresh_def
        res_get_def)
qed

text \<open>Evaluation of the framework's test on the example requests.\<close>

lemma example_fresh_star:
  "expressFresh (headers exampleStarRequest) (Some t)"
  by (simp add: expressFresh_def headerText_def truthy_def exampleStarRequest_def)

lemma example_fresh_weak:
  "expressFresh (headers exampleWeakRequest)
     (Some ([dquote] @ ''0123456789abcdef'' @ [dquote]))"
  by (simp add: expressFresh_def headerText_def truthy_def exampleWeakRequest_def
      etagMatches_def parseTokenList_def substring_def dquote_def)

lemma example_fresh_empty:
  "\<not> expressFresh (headers exampleEmptyRequest) t"
  by (simp add: expressFresh_def headerText_def truthy_def exampleEmptyRequest_def)

lemma example_resolve_star:
  "resolveQx7IdAndMethod exampleCrypto (extractSignals exampleParseFloat exampleStarRequest)
     = Inr \<lparr>qx7Id = Some ''031425364758697a8b9cadbecfe0f102'', isReturning = False,
            persistenceMethod = ''new''\<rparr>"
  by (simp add: resolve_cases resolveStored_cases example_eval exampleStarRequest_def
      example_random_id)

lemma example_resolve_weak:
  "resolveQx7IdAndMethod exampleCrypto (extractSignals exampleParseFloat exampleWeakRequest)
     = Inr \<lparr>qx7Id = Some ''0123456789abcdef'', isReturning = True,
            persistenceMethod = ''localStorage''\<rparr>"
  by (simp add: resolve_cases resolveStored_cases example_eval exampleWeakRequest_def)

lemma example_resolve_empty:
  "resolveQx7IdAndMethod exampleCrypto (extractSignals exampleParseFloat exampleEmptyRequest)
     = Inr \<lparr>qx7Id = Some ''031425364758697a8b9cadbecfe0f102'', isReturning = False,
            persistenceMethod = ''new''\<rparr>"
  by (simp add: resolve_cases resolveStored_cases example_eval exampleEmptyRequest_def
      example_random_id)

lemma example_resolve_stored:
  "resolveQx7IdAndMethod exampleCrypto (extractSignals exampleParseFloat exampleStoredRequest)
     = Inr \<lparr>qx7Id = Some ''0123456789abcdef'', isReturning = True,
            persistenceMethod = ''localStorage''\<rparr>"
  by (simp add: resolve_cases resolveStored_cases example_eval exampleStoredRequest_def)

lemma example_clean_star:
  "cleanEtag (getStringHeader exampleStarRequest ''if-none-match'') = Some ''*''"
  by (simp add: example_eval exampleStarRequest_def)

lemma example_clean_weak:
  "cleanEtag (getStringHeader exampleWeakRequest ''if-none-match'')
     = Some (''W/'' @ [dquote] @ ''0123456789abcdef'' @ [dquote])"
  by (simp add: example_eval exampleWeakRequest_def)

lemma example_clean_stored:
  "cleanEtag (getStringHeader exampleStoredRequest ''if-none-match'')
     = Some ''0123456789abcdef''"
  by (simp add: example_eval exampleStoredRequest_def)

lemma example_clean_empty:
  "cleanEtag (getStringHeader exampleEmptyRequest ''if-none-match'') = None"
  by (simp add: example_eval exampleEmptyRequest_def)

lemma example_rockman:
  "query_rockmanId exampleEmptyRequest = None" "query_rockmanId exampleStarRequest = None"
  "query_rockmanId exampleWeakRequest = None"
  by (simp_all add: exampleEmptyRequest_def exampleStarRequest_def exampleWeakRequest_def)

lemma example_valid_id: "isValidQx7Id (Some ''0123456789abcdef'')"
  "isValidQx7Id (Some ''031425364758697a8b9cadbecfe0f102'')"
  by (simp_all add: isValidQx7Id_def isHexChar_def)

text \<open>
  C9, as stated: for every request that raises no exception, if the \<open>If-None-Match\<close>
  header, with its surrounding quotes stripped, equals the resolved id and passes the
  validator, the response is 304 with no body; otherwise the response is 200 with the JSON
  body and the four headers. The second half fails. With \<open>If-None-Match: *\<close> the
  stripped header is \<open>*\<close>, which is not the id and not valid, the handler calls
  \<open>res.json\<close>, and the framework's freshness test makes the response a 304 with no body.
  The same happens with the weak tag \<open>W/"0123456789abcdef"\<close> when that id is the stored
  client id.
\<close>

theorem onboarding_step1_fresh_counterexample:
  "cleanEtag (getStringHeader exampleStarRequest ''if-none-match'') = Some ''*''
   \<and> \<not> isValidQx7Id (Some ''*'')
   \<and> onboarding_step1 exampleCrypto exampleParseFloat expressFresh exampleStarRequest
       = Inr \<lparr>status = 304,
              resHeaders =
                [(''ETag'', [dquote] @ ''031425364758697a8b9cadbecfe0f102'' @ [dquote]),
                 (''Cache-Control'', ''private, max-age=3600''),
                 (''x-qx7-id'', ''031425364758697a8b9cadbecfe0f102''),
                 (''x-persistence-method'', ''new'')],
              resBody = NoBody,
              analytics =
                Some \<lparr>utm_cdn = '''', event_name = ''filter-tag'',
                      event_id = ''031425364758697a8b9cadbecfe0f102'',
                      other_info = ''onboarding-step1'', persistence_method = ''new''\<rparr>\<rparr>
   \<and> cleanEtag (getStringHeader exampleWeakRequest ''if-none-match'')
       \<noteq> Some ''0123456789abcdef''
   \<and> onboarding_step1 exampleCrypto exampleParseFloat expressFresh exampleWeakRequest
       = Inr \<lparr>status = 304,
              resHeaders =
                [(''ETag'', [dquote] @ ''0123456789abcdef'' @ [dquote]),
                 (''Cache-Control'', ''private, max-age=3600''),
                 (''x-qx7-id'', ''0123456789abcdef''),
                 (''x-persistence-method'', ''localStorage'')],
              resBody = NoBody,
              analytics =
                Some \<lparr>utm_cdn = '''', event_name = ''filter-tag'',
                      event_id = ''0123456789abcdef'',
                      other_info = ''onboarding-step1'',
                      persistence_method = ''localStorage''\<rparr>\<rparr>"
proof -
  have s: "onboarding_step1 exampleCrypto exampleParseFloat expressFresh exampleStarRequest
      = Inr (freshResponse None ''031425364758697a8b9cadbecfe0f102'' ''new'' False)"
    using step1_cases [OF example_resolve_star _ example_valid_id(2), of expressFresh]
      example_fresh_star example_rockman
    by (simp add: example_clean_star)
  have w: "onboarding_step1 exampleCrypto exampleParseFloat expressFresh exampleWeakRequest
      = Inr (freshResponse None ''0123456789abcdef'' ''localStorage'' True)"
    using step1_cases [OF example_resolve_weak _ example_valid_id(1), of expressFresh]
      example_fresh_weak example_rockman
    by (simp add: example_clean_weak)
  show ?thesis
    by (simp add: s w example_clean_star example_clean_weak isValidQx7Id_def
        freshResponse_def okResponse_def)
qed

text \<open>
  C9, amended: every request resolves without an exception, and then: if the
  \<open>If-None-Match\<close> header, with its surrounding quotes stripped, equals the resolved id and
  passes the validator, the response is 304 with no body; otherwise the handler sets the
  headers \<open>ETag\<close> (the id in double quotes), \<open>Cache-Control: private, max-age=3600\<close>,
  \<open>x-qx7-id\<close> and \<open>x-persistence-method\<close> and passes the JSON body
  \<open>{qx7Id, persistenceMethod, isReturning}\<close> to \<open>res.json\<close>, and the response is 200 with
  that body unless the framework's freshness test of the request headers against that
  \<open>ETag\<close> succeeds, when it is 304 with those headers and no body. This holds for every
  freshness test.
\<close>

theorem onboarding_step1_response:
  "\<exists>r i. resolveQx7IdAndMethod c (extractSignals pf req) = Inr r \<and> qx7Id r = Some i
     \<and> onboarding_step1 c pf fresh req =
         Inr (if cleanEtag (getStringHeader req ''if-none-match'') = Some i
                 \<and> isValidQx7Id (cleanEtag (getStringHeader req ''if-none-match''))
              then notModified
              else if fresh (headers req) (Some ([dquote] @ i @ [dquote]))
              then (okResponse (query_rockmanId req) i (persistenceMethod r) (isReturning r))
                     \<lparr>status := 304, resBody := NoBody\<rparr>
              else okResponse (query_rockmanId req) i (persistenceMethod r) (isReturning r))"
proof -
  obtain r i where r: "resolveQx7IdAndMethod c (extractSignals pf req) = Inr r"
    and i: "qx7Id r = Some i" and v: "isValidQx7Id (Some i)"
    using resolve_returns_valid by blast
  from step1_cases [OF r i v, of fresh] v have "onboarding_step1 c pf fresh req =
         Inr (if cleanEtag (getStringHeader req ''if-none-match'') = Some i
                 \<and> isValidQx7Id (cleanEtag (getStringHeader req ''if-none-match''))
              then notModified
              else if fresh (headers req) (Some ([dquote] @ i @ [dquote]))
              then (okResponse (query_rockmanId req) i (persistenceMethod r) (isReturning r))
                     \<lparr>status := 304, resBody := NoBody\<rparr>
              else okResponse (query_rockmanId req) i (persistenceMethod r) (isReturning r))"
    by (auto simp: freshResponse_def)
  with r i show ?thesis by blast
qed

theorem onboarding_step1_response_witness:
  "onboarding_step1 exampleCrypto exampleParseFloat expressFresh exampleStoredRequest
     = Inr notModified
   \<and> onboarding_step1 exampleCrypto exampleParseFloat expressFresh exampleEmptyRequest
       = Inr (okResponse None ''031425364758697a8b9cadbecfe0f102'' ''new'' False)
   \<and> onboarding_step1 exampleCrypto exampleParseFloat expressFresh exampleStarRequest
       = Inr ((okResponse None ''031425364758697a8b9cadbecfe0f102'' ''new'' False)
                \<lparr>status := 304, resBody := NoBody\<rparr>)"
proof -
  note q = example_rockman
  show ?thesis
    using
      onboarding_step1_response [of exampleCrypto exampleParseFloat exampleStoredRequest
        expressFresh]
      onboarding_step1_response [of exampleCrypto exampleParseFloat exampleEmptyRequest
        expressFresh]
      onboarding_step1_response [of exampleCrypto exampleParseFloat exampleStarRequest
        expressFresh]
    by (auto simp: example_resolve_stored example_resolve_empty example_resolve_star
        example_clean_stored example_clean_empty example_clean_star q example_valid_id
        example_fresh_star example_fresh_empty)
qed

text \<open>
  C10. For every request, the resolver's method is \<open>etag\<close> or \<open>etag-verified\<close> exactly
  when its ETag branch supplied the id; in that case the handler's conditional check
  matches and the response is 304. So a 200 response with the JSON body never carries the
  method \<open>etag\<close> or \<open>etag-verified\<close>. This holds for every freshness test of the
  framework.
\<close>

theorem etag_recovery_not_modified:
  "\<exists>r. resolveQx7IdAndMethod c (extractSignals pf req) = Inr r
     \<and> ((\<not> trustedStored (extractSignals pf req) \<and> etagRecovered (extractSignals pf req))
          = (persistenceMethod r = ''etag'' \<or> persistenceMethod r = ''etag-verified''))
     \<and> (persistenceMethod r = ''etag'' \<or> persistenceMethod r = ''etag-verified''
          \<longrightarrow> onboarding_step1 c pf fresh req = Inr notModified)
     \<and> (\<forall>res i m ret. onboarding_step1 c pf fresh req = Inr res \<and> status res = 200
            \<and> resBody res = IdentityJson i m ret
          \<longrightarrow> m \<noteq> ''etag'' \<and> m \<noteq> ''etag-verified'')"
proof -
  let ?s = "extractSignals pf req"
  obtain r i where r: "resolveQx7IdAndMethod c ?s = Inr r"
    and i: "qx7Id r = Some i" and v: "isValidQx7Id (Some i)"
    using resolve_returns_valid by blast
  note st = step1_cases [OF r i v, of fresh]
  have e: "etagFromHeader ?s = getStringHeader req ''if-none-match''"
    by (simp add: extractSignals_def)
  have br: "(\<not> trustedStored ?s \<and> etagRecovered ?s)
          = (persistenceMethod r = ''etag'' \<or> persistenceMethod r = ''etag-verified'')"
    using r by (auto simp: resolve_cases resolveStored_cases split: if_splits)
  have nm: "onboarding_step1 c pf fresh req = Inr notModified"
    if "persistenceMethod r = ''etag'' \<or> persistenceMethod r = ''etag-verified''"
  proof -
    from that br have b: "\<not> trustedStored ?s" "etagRecovered ?s" by auto
    with r have "qx7Id r = cleanEtag (etagFromHeader ?s)"
      by (auto simp: resolve_cases resolveStored_cases)
    with i e have "cleanEtag (getStringHeader req ''if-none-match'') = Some i" by simp
    with st show ?thesis by simp
  qed
  have ok: "m \<noteq> ''etag'' \<and> m \<noteq> ''etag-verified''"
    if "onboarding_step1 c pf fresh req = Inr res \<and> status res = 200
        \<and> resBody res = IdentityJson i' m ret"
    for res i' m ret
  proof (cases "persistenceMethod r = ''etag'' \<or> persistenceMethod r = ''etag-verified''")
    case True
    from nm [OF True] that show ?thesis by (auto simp: notModified_def)
  next
    case False
    with that st show ?thesis
      by (auto simp: notModified_def okResponse_def freshResponse_def split: if_splits)
  qed
  from r br nm ok show ?thesis by blast
qed

theorem etag_recovery_not_modified_witness:
  "resolveQx7IdAndMethod exampleCrypto (extractSignals exampleParseFloat exampleEtagRequest)
     = Inr \<lparr>qx7Id = Some ''0123456789abcdef'', isReturning = True,
            persistenceMethod = ''etag-verified''\<rparr>
   \<and> onboarding_step1 exampleCrypto exampleParseFloat expressFresh exampleEtagRequest
       = Inr notModified"
proof -
  have a: "resolveQx7IdAndMethod exampleCrypto
             (extractSignals exampleParseFloat exampleEtagRequest)
     = Inr \<lparr>qx7Id = Some ''0123456789abcdef'', isReturning = True,
            persistenceMethod = ''etag-verified''\<rparr>"
    by (simp add: resolve_cases resolveStored_cases example_eval exampleEtagRequest_def)
  show ?thesis
    using etag_recovery_not_modified [of exampleCrypto exampleParseFloat exampleEtagRequest
      expressFresh]
    by (simp add: a)
qed


section \<open>Claims about the storage orchestrator\<close>

lemma validators_agree: "storage_isValidQx7Id v = isValidQx7Id v"
  by (auto simp: storage_isValidQx7Id_def isValidQx7Id_def split: option.splits)

lemma some_success: "(0 < length (filter P xs)) = (\<exists>x \<in> set xs. P x)"
  by (induction xs) auto

lemma setQx7Id_after: "after (setQx7Id env st i p) = st"
  by (simp add: setQx7Id_def Let_def)

lemma setQx7Id_calls_env: "calls (setQx7Id env st i p) = calls (setQx7Id env' st i p)"
  by (simp add: setQx7Id_def Let_def)

lemma setQx7Id_returned:
  "returned (setQx7Id env st i p)
     = (\<exists>b \<in> set (calls (setQx7Id env st i p)). env b = Fulfilled True)"
  by (simp add: setQx7Id_def Let_def some_success)

lemma setQx7Id_all:
  assumes "storage_isValidQx7Id i" and "p = None \<or> p = Some ''all''"
  shows "calls (setQx7Id env st i p)
           = [LocalStorage, SessionStorage]
             @ (if IndexedDB \<in> set (STORAGE_PRIORITIES st) then [IndexedDB] else [])
             @ [Cookies, ServiceWorker]"
  using assms by (auto simp: setQx7Id_def Let_def)

text \<open>
  C5. For every id and every pattern of outcomes of the adapters, \<open>setQx7Id\<close> returns
  true exactly when at least one of the adapter writes it started was fulfilled with
  \<open>true\<close>; an id that fails the validator is rejected silently (the result is false and
  no adapter is called); the adapters that are called do not depend on any adapter's
  outcome, so a failure of one never keeps another from being attempted: with priority
  \<open>all\<close> they are every backend, the versioned database as long as it is in the active
  set. (\<open>Qx7Storage.isValidQx7Id\<close> accepts the same strings as the server's validator,
  lemma \<open>validators_agree\<close>.)
\<close>

theorem setQx7Id_partial_success:
  "returned (setQx7Id env st i p)
     = (\<exists>b \<in> set (calls (setQx7Id env st i p)). env b = Fulfilled True)
   \<and> (\<not> storage_isValidQx7Id i \<longrightarrow>
        \<not> returned (setQx7Id env st i p) \<and> calls (setQx7Id env st i p) = [])
   \<and> calls (setQx7Id env st i p) = calls (setQx7Id env' st i p)
   \<and> (storage_isValidQx7Id i \<and> (p = None \<or> p = Some ''all'') \<longrightarrow>
        calls (setQx7Id env st i p)
          = [LocalStorage, SessionStorage]
            @ (if IndexedDB \<in> set (STORAGE_PRIORITIES st) then [IndexedDB] else [])
            @ [Cookies, ServiceWorker])"
proof -
  have "\<not> storage_isValidQx7Id i \<longrightarrow>
        \<not> returned (setQx7Id env st i p) \<and> calls (setQx7Id env st i p) = []"
    by (simp add: setQx7Id_def)
  then show ?thesis
    using setQx7Id_returned [of env st i p] setQx7Id_calls_env [of env st i p env']
      setQx7Id_all [of i p env st]
    by blast
qed

theorem setQx7Id_partial_success_witness:
  "storage_isValidQx7Id (Some ''0123456789abcdef'')
   \<and> returned (setQx7Id exampleWrites initialStorage (Some ''0123456789abcdef'') None)
   \<and> calls (setQx7Id exampleWrites initialStorage (Some ''0123456789abcdef'') None)
       = [LocalStorage, SessionStorage, IndexedDB, Cookies, ServiceWorker]
   \<and> exampleWrites IndexedDB = Rejected
   \<and> \<not> storage_isValidQx7Id (Some ''not-an-id'')
   \<and> \<not> returned (setQx7Id exampleWrites initialStorage (Some ''not-an-id'') None)
   \<and> calls (setQx7Id exampleWrites initialStorage (Some ''not-an-id'') None) = []"
proof -
  have v: "storage_isValidQx7Id (Some ''0123456789abcdef'')"
    by (simp add: storage_isValidQx7Id_def isHexChar_def)
  have n: "\<not> storage_isValidQx7Id (Some ''not-an-id'')"
    by (simp add: storage_isValidQx7Id_def)
  have i: "IndexedDB \<in> set (STORAGE_PRIORITIES initialStorage)"
    by (simp add: initialStorage_def)
  from v n i
    setQx7Id_partial_success [of exampleWrites initialStorage "Some ''0123456789abcdef''" None
      exampleWrites]
    setQx7Id_partial_success [of exampleWrites initialStorage "Some ''not-an-id''" None
      exampleWrites]
  show ?thesis by (simp add: exampleWrites_def)
qed

subsection \<open>Demotion of the versioned database\<close>

lemma getLoop_calls:
  "\<exists>ys. calls (getLoop env ms st cs) = cs @ ys \<and> set ys \<subseteq> set ms"
proof (induction ms arbitrary: st cs)
  case Nil
  then show ?case by simp
next
  case (Cons m ms)
  show ?case
  proof (cases "env m")
    case (Fulfilled v)
    show ?thesis
    proof (cases "truthy v \<and> storage_isValidQx7Id v")
      case True
      with Fulfilled show ?thesis by simp
    next
      case False
      from Cons.IH [of st "cs @ [m]"] obtain ys
        where "calls (getLoop env ms st (cs @ [m])) = (cs @ [m]) @ ys" "set ys \<subseteq> set ms"
        by blast
      with Fulfilled False show ?thesis by auto
    qed
  next
    case Rejected
    let ?st = "if m = IndexedDB
             then st\<lparr>STORAGE_PRIORITIES := filter (\<lambda>x. x \<noteq> IndexedDB) (STORAGE_PRIORITIES st)\<rparr>
             else st"
    from Cons.IH [of ?st "cs @ [m]"] obtain ys
      where "calls (getLoop env ms ?st (cs @ [m])) = (cs @ [m]) @ ys" "set ys \<subseteq> set ms"
      by blast
    with Rejected show ?thesis by auto
  qed
qed

lemma getLoop_no_idb:
  "IndexedDB \<notin> set (STORAGE_PRIORITIES st)
    \<Longrightarrow> IndexedDB \<notin> set (STORAGE_PRIORITIES (after (getLoop env ms st cs)))"
  by (induction ms arbitrary: st cs) (auto split: settled.splits)

lemma getLoop_demotes:
  "IndexedDB \<in> set (calls (getLoop env ms st cs)) \<Longrightarrow> IndexedDB \<notin> set cs
    \<Longrightarrow> env IndexedDB = Rejected
    \<Longrightarrow> IndexedDB \<notin> set (STORAGE_PRIORITIES (after (getLoop env ms st cs)))"
proof (induction ms arbitrary: st cs)
  case Nil
  then show ?case by simp
next
  case (Cons m ms)
  show ?case
  proof (cases "m = IndexedDB")
    case True
    have "IndexedDB \<notin> set (STORAGE_PRIORITIES
            (st\<lparr>STORAGE_PRIORITIES := filter (\<lambda>x. x \<noteq> IndexedDB) (STORAGE_PRIORITIES st)\<rparr>))"
      by simp
    from getLoop_no_idb [OF this] True Cons.prems(3) show ?thesis by simp
  next
    case False
    with Cons.prems have nc: "IndexedDB \<notin> set (cs @ [m])" by simp
    show ?thesis
    proof (cases "env m")
      case (Fulfilled v)
      show ?thesis
      proof (cases "truthy v \<and> storage_isValidQx7Id v")
        case True
        with Fulfilled Cons.prems False show ?thesis by simp
      next
        case nv: False
        with Fulfilled Cons.prems(1) have "IndexedDB \<in> set (calls (getLoop env ms st (cs @ [m])))"
          by auto
        from Cons.IH [OF this nc Cons.prems(3)] Fulfilled nv show ?thesis by auto
      qed
    next
      case Rejected
      with False Cons.prems(1) have "IndexedDB \<in> set (calls (getLoop env ms st (cs @ [m])))"
        by simp
      from Cons.IH [OF this nc Cons.prems(3)] Rejected False show ?thesis by simp
    qed
  qed
qed

lemma getQx7Id_calls: "set (calls (getQx7Id env st)) \<subseteq> set (STORAGE_PRIORITIES st)"
  using getLoop_calls [of env "STORAGE_PRIORITIES st" st "[]"]
  by (auto simp: getQx7Id_def)

lemma setQx7Id_no_idb:
  "IndexedDB \<notin> set (STORAGE_PRIORITIES st) \<Longrightarrow> IndexedDB \<notin> set (calls (setQx7Id env st i p))"
  by (simp add: setQx7Id_def Let_def)

lemma perform_no_idb:
  assumes "IndexedDB \<notin> set (STORAGE_PRIORITIES st)"
  shows "IndexedDB \<notin> set (STORAGE_PRIORITIES (fst (perform st a)))
         \<and> IndexedDB \<notin> set (snd (perform st a))"
proof (cases a)
  case (Read env)
  with assms getQx7Id_calls [of env st] getLoop_no_idb [OF assms, of env "STORAGE_PRIORITIES st" "[]"]
  show ?thesis by (auto simp: getQx7Id_def)
next
  case (Write env i p)
  with assms setQx7Id_no_idb [OF assms] show ?thesis by (simp add: setQx7Id_after)
qed

lemma run_no_idb:
  "IndexedDB \<notin> set (STORAGE_PRIORITIES st)
    \<Longrightarrow> IndexedDB \<notin> set (STORAGE_PRIORITIES (fst (run st ops)))
        \<and> IndexedDB \<notin> set (snd (run st ops))"
proof (induction ops arbitrary: st)
  case Nil
  then show ?case by simp
next
  case (Cons a ops)
  from perform_no_idb [OF Cons.prems, of a]
  have p: "IndexedDB \<notin> set (STORAGE_PRIORITIES (fst (perform st a)))"
    "IndexedDB \<notin> set (snd (perform st a))" by auto
  from Cons.IH [OF p(1)] p(2) show ?case
    by (auto simp: split_beta Let_def)
qed

text \<open>
  C6, as stated: if the versioned-database adapter throws during a read or a write, it is
  removed from the active backends for good and never tried again. This fails for a write:
  \<open>setQx7Id\<close> does not change \<open>STORAGE_PRIORITIES\<close>, so after a write in which the
  adapter rejected it is still in the active set, and the next write and the next read call
  it again.
\<close>

theorem idb_write_failure_counterexample:
  "IndexedDB \<in> set (calls (setQx7Id exampleWrites initialStorage (Some ''0123456789abcdef'') None))
   \<and> exampleWrites IndexedDB = Rejected
   \<and> IndexedDB \<in> set (STORAGE_PRIORITIES
        (after (setQx7Id exampleWrites initialStorage (Some ''0123456789abcdef'') None)))
   \<and> IndexedDB \<in> set (calls (setQx7Id exampleWrites
        (after (setQx7Id exampleWrites initialStorage (Some ''0123456789abcdef'') None))
        (Some ''0123456789abcdef'') None))
   \<and> IndexedDB \<in> set (calls (getQx7Id exampleEmptyReads
        (after (setQx7Id exampleWrites initialStorage (Some ''0123456789abcdef'') None))))"
  by (simp add: setQx7Id_def getQx7Id_def storage_isValidQx7Id_def isHexChar_def
      initialStorage_def exampleWrites_def exampleEmptyReads_def truthy_def)

text \<open>
  C6, amended: if the versioned-database adapter throws during a read by \<open>getQx7Id\<close>,
  it is removed from the active backends, and no later sequence of \<open>getQx7Id\<close> and
  \<open>setQx7Id\<close> calls, whatever their outcomes, calls it again or puts it back.
\<close>

theorem idb_read_failure_demotes:
  assumes "IndexedDB \<in> set (calls (getQx7Id env st))" and "env IndexedDB = Rejected"
  shows "IndexedDB \<notin> set (STORAGE_PRIORITIES (after (getQx7Id env st)))
     \<and> (\<forall>ops. IndexedDB \<notin> set (snd (run (after (getQx7Id env st)) ops))
            \<and> IndexedDB \<notin> set (STORAGE_PRIORITIES (fst (run (after (getQx7Id env st)) ops))))"
proof -
  from assms have d: "IndexedDB \<notin> set (STORAGE_PRIORITIES (after (getQx7Id env st)))"
    using getLoop_demotes [of env "STORAGE_PRIORITIES st" st "[]"]
    by (simp add: getQx7Id_def)
  with run_no_idb [OF d] show ?thesis by blast
qed

theorem idb_read_failure_demotes_witness:
  "IndexedDB \<in> set (calls (getQx7Id exampleFailingReads initialStorage))
   \<and> exampleFailingReads IndexedDB = Rejected
   \<and> STORAGE_PRIORITIES (after (getQx7Id exampleFailingReads initialStorage))
       = [LocalStorage, SessionStorage, Cookies, ServiceWorker]
   \<and> run (after (getQx7Id exampleFailingReads initialStorage))
        [Write exampleWrites (Some ''0123456789abcdef'') None, Read exampleEmptyReads]
       = (\<lparr>STORAGE_PRIORITIES = [LocalStorage, SessionStorage, Cookies, ServiceWorker]\<rparr>,
          [LocalStorage, SessionStorage, Cookies, ServiceWorker,
           LocalStorage, SessionStorage, Cookies, ServiceWorker])"
proof -
  have a: "IndexedDB \<in> set (calls (getQx7Id exampleFailingReads initialStorage))"
    by (simp add: getQx7Id_def initialStorage_def exampleFailingReads_def truthy_def)
  have b: "exampleFailingReads IndexedDB = Rejected"
    by (simp add: exampleFailingReads_def)
  have c: "after (getQx7Id exampleFailingReads initialStorage)
       = \<lparr>STORAGE_PRIORITIES = [LocalStorage, SessionStorage, Cookies, ServiceWorker]\<rparr>"
    by (simp add: getQx7Id_def initialStorage_def exampleFailingReads_def truthy_def)
  have r: "run \<lparr>STORAGE_PRIORITIES = [LocalStorage, SessionStorage, Cookies, ServiceWorker]\<rparr>
        [Write exampleWrites (Some ''0123456789abcdef'') None, Read exampleEmptyReads]
       = (\<lparr>STORAGE_PRIORITIES = [LocalStorage, SessionStorage, Cookies, ServiceWorker]\<rparr>,
          [LocalStorage, SessionStorage, Cookies, ServiceWorker,
           LocalStorage, SessionStorage, Cookies, ServiceWorker])"
    by (simp add: setQx7Id_def getQx7Id_def storage_isValidQx7Id_def isHexChar_def
        exampleEmptyReads_def truthy_def)
  from idb_read_failure_demotes [OF a b] a b c r show ?thesis by simp
qed


section \<open>Claims about the data-clearing heuristic\<close>

lemma detect_fields:
  "det_dataCleared (returned (detectQx7DataClearing p st))
      = (2 \<le> clearedCount (returned (detectQx7DataClearing p st)))
   \<and> clearedCount (returned (detectQx7DataClearing p st))
      = length (filter (\<lambda>b. b) (checks (returned (detectQx7DataClearing p st))))
   \<and> totalChecks (returned (detectQx7DataClearing p st))
      = length (checks (returned (detectQx7DataClearing p st)))
   \<and> confidence (returned (detectQx7DataClearing p st))
      = of_nat (clearedCount (returned (detectQx7DataClearing p st)))
        / of_nat (totalChecks (returned (detectQx7DataClearing p st)))"
  by (simp add: detectQx7DataClearing_def Let_def)

lemma detect_total:
  "totalChecks (returned (detectQx7DataClearing p st)) = 4
   \<or> totalChecks (returned (detectQx7DataClearing p st)) = 5"
  by (cases "serviceWorker p") (simp_all add: detectQx7DataClearing_def Let_def)

text \<open>What the probes find, read off the environment.\<close>

lemma storage_valid_truthy: "storage_isValidQx7Id v \<Longrightarrow> truthy v"
  by (auto simp: storage_isValidQx7Id_def truthy_def split: option.splits)

lemma getLoop_found:
  "truthy (returned (getLoop env ms st cs))
     = (\<exists>b \<in> set ms. \<exists>v. env b = Fulfilled v \<and> storage_isValidQx7Id v)"
proof (induction ms arbitrary: st cs)
  case Nil
  then show ?case by (simp add: truthy_def)
next
  case (Cons m ms)
  show ?case
  proof (cases "env m")
    case (Fulfilled v)
    show ?thesis
    proof (cases "storage_isValidQx7Id v")
      case True
      with Fulfilled storage_valid_truthy [OF True] show ?thesis by auto
    next
      case False
      with Fulfilled Cons.IH [of st "cs @ [m]"] show ?thesis by auto
    qed
  next
    case Rejected
    with Cons.IH show ?thesis by auto
  qed
qed

lemma no_stored_id:
  "(\<not> truthy (returned (getQx7Id env st)))
     = (\<forall>b \<in> set (STORAGE_PRIORITIES st). \<forall>v. env b = Fulfilled v \<longrightarrow> \<not> storage_isValidQx7Id v)"
  by (auto simp: getQx7Id_def getLoop_found)

lemma marker_missing:
  "(case m of Fulfilled v \<Rightarrow> \<not> truthy v | Rejected \<Rightarrow> True)
     = (m = Rejected \<or> m = Fulfilled None \<or> m = Fulfilled (Some []))"
  by (auto simp: truthy_def split: settled.splits option.splits)

lemma cache_cleared:
  "checkCacheStatus k = (k = Rejected \<or> k = Fulfilled 0)"
  by (auto simp: checkCacheStatus_def split: settled.splits)

lemma worker_probe:
  "(case w of Unsupported \<Rightarrow> [] | Unregistered \<Rightarrow> [] | Registered \<Rightarrow> [True] | SwThrows \<Rightarrow> [True])
     = (if w = Registered \<or> w = SwThrows then [True] else [])"
  by (cases w) simp_all

lemma detect_checks:
  "checks (returned (detectQx7DataClearing p st))
     = [\<forall>b \<in> set (STORAGE_PRIORITIES st).
          \<forall>v. storedReads p b = Fulfilled v \<longrightarrow> \<not> storage_isValidQx7Id v,
        activeSession p = Rejected \<or> activeSession p = Fulfilled None
          \<or> activeSession p = Fulfilled (Some []),
        sessionStartTime p = Rejected \<or> sessionStartTime p = Fulfilled None
          \<or> sessionStartTime p = Fulfilled (Some []),
        cacheKeys p = Rejected \<or> cacheKeys p = Fulfilled 0]
       @ (if serviceWorker p = Registered \<or> serviceWorker p = SwThrows then [True] else [])"
  by (simp add: detectQx7DataClearing_def Let_def no_stored_id marker_missing cache_cleared
      worker_probe)

text \<open>
  C7. The probes of \<open>detectQx7DataClearing\<close> are positive as follows: no active backend
  gives a valid stored id; the active-session marker is missing or its read throws; the
  session-start marker is missing or its read throws; the cache has no keys or its read
  throws; and, only when a service worker is registered or its probe throws, the
  service-worker probe, which is then always positive. The list \<open>checks\<close> is exactly these
  results, four or five of them; \<open>dataCleared\<close> is true exactly when at least two of them
  are positive, whatever their number, and \<open>confidence\<close> is the number of positive probes
  divided by the number of probes; so exactly two positive probes give \<open>true\<close> and exactly
  one gives \<open>false\<close>.
\<close>

theorem detect_threshold:
  assumes "positives =
     [\<forall>b \<in> set (STORAGE_PRIORITIES st).
        \<forall>v. storedReads p b = Fulfilled v \<longrightarrow> \<not> storage_isValidQx7Id v,
      activeSession p = Rejected \<or> activeSession p = Fulfilled None
        \<or> activeSession p = Fulfilled (Some []),
      sessionStartTime p = Rejected \<or> sessionStartTime p = Fulfilled None
        \<or> sessionStartTime p = Fulfilled (Some []),
      cacheKeys p = Rejected \<or> cacheKeys p = Fulfilled 0]
     @ (if serviceWorker p = Registered \<or> serviceWorker p = SwThrows then [True] else [])"
  shows "checks (returned (detectQx7DataClearing p st)) = positives
   \<and> det_dataCleared (returned (detectQx7DataClearing p st))
      = (2 \<le> length (filter (\<lambda>b. b) positives))
   \<and> confidence (returned (detectQx7DataClearing p st))
      = of_nat (length (filter (\<lambda>b. b) positives)) / of_nat (length positives)
   \<and> det_dataCleared (returned (detectQx7DataClearing p st))
      = (2 \<le> clearedCount (returned (detectQx7DataClearing p st)))
   \<and> clearedCount (returned (detectQx7DataClearing p st))
      = length (filter (\<lambda>b. b) (checks (returned (detectQx7DataClearing p st))))
   \<and> totalChecks (returned (detectQx7DataClearing p st))
      = length (checks (returned (detectQx7DataClearing p st)))
   \<and> (totalChecks (returned (detectQx7DataClearing p st)) = 4
      \<or> totalChecks (returned (detectQx7DataClearing p st)) = 5)
   \<and> confidence (returned (detectQx7DataClearing p st))
      = of_nat (clearedCount (returned (detectQx7DataClearing p st)))
        / of_nat (totalChecks (returned (detectQx7DataClearing p st)))
   \<and> (clearedCount (returned (detectQx7DataClearing p st)) = 2
        \<longrightarrow> det_dataCleared (returned (detectQx7DataClearing p st)))
   \<and> (clearedCount (returned (detectQx7DataClearing p st)) = 1
        \<longrightarrow> \<not> det_dataCleared (returned (detectQx7DataClearing p st)))"
proof -
  have c: "checks (returned (detectQx7DataClearing p st)) = positives"
    using assms by (simp only: detect_checks)
  from detect_fields [of p st] detect_total [of p st] c show ?thesis
    by simp
qed

lemmas detect_eval =
  detectQx7DataClearing_def getQx7Id_def initialStorage_def checkCacheStatus_def
  exampleStoredReads_def exampleEmptyReads_def truthy_def storage_isValidQx7Id_def isHexChar_def

lemmas probes_eval =
  initialStorage_def exampleStoredReads_def exampleEmptyReads_def storage_isValidQx7Id_def
  isHexChar_def

lemma detection_eq:
  "(d :: detection) =
     \<lparr>det_dataCleared = det_dataCleared d, confidence = confidence d,
      checks = checks d, clearedCount = clearedCount d, totalChecks = totalChecks d\<rparr>"
  by simp

theorem detect_threshold_witness:
  "returned (detectQx7DataClearing exampleTwoOfFive initialStorage)
     = \<lparr>det_dataCleared = True, confidence = 2 / 5,
        checks = [False, False, False, True, True], clearedCount = 2, totalChecks = 5\<rparr>
   \<and> returned (detectQx7DataClearing exampleOneOfFive initialStorage)
     = \<lparr>det_dataCleared = False, confidence = 1 / 5,
        checks = [False, False, False, False, True], clearedCount = 1, totalChecks = 5\<rparr>
   \<and> returned (detectQx7DataClearing exampleTwoOfFour initialStorage)
     = \<lparr>det_dataCleared = True, confidence = 2 / 4,
        checks = [True, False, True, False], clearedCount = 2, totalChecks = 4\<rparr>
   \<and> returned (detectQx7DataClearing exampleNoIdNoSession initialStorage)
     = \<lparr>det_dataCleared = True, confidence = 2 / 4,
        checks = [True, True, False, False], clearedCount = 2, totalChecks = 4\<rparr>
   \<and> returned (detectQx7DataClearing exampleWorkerThrows initialStorage)
     = \<lparr>det_dataCleared = False, confidence = 1 / 5,
        checks = [False, False, False, False, True], clearedCount = 1, totalChecks = 5\<rparr>"
proof -
  have a: "returned (detectQx7DataClearing exampleTwoOfFive initialStorage)
     = \<lparr>det_dataCleared = True, confidence = 2 / 5,
        checks = [False, False, False, True, True], clearedCount = 2, totalChecks = 5\<rparr>"
    using detect_threshold [OF refl, of exampleTwoOfFive initialStorage]
    apply (subst detection_eq [of "returned (detectQx7DataClearing exampleTwoOfFive initialStorage)"])
    by (simp add: probes_eval exampleTwoOfFive_def)
  have b: "returned (detectQx7DataClearing exampleOneOfFive initialStorage)
     = \<lparr>det_dataCleared = False, confidence = 1 / 5,
        checks = [False, False, False, False, True], clearedCount = 1, totalChecks = 5\<rparr>"
    using detect_threshold [OF refl, of exampleOneOfFive initialStorage]
    apply (subst detection_eq [of "returned (detectQx7DataClearing exampleOneOfFive initialStorage)"])
    by (simp add: probes_eval exampleOneOfFive_def)
  have c: "returned (detectQx7DataClearing exampleTwoOfFour initialStorage)
     = \<lparr>det_dataCleared = True, confidence = 2 / 4,
        checks = [True, False, True, False], clearedCount = 2, totalChecks = 4\<rparr>"
    using detect_threshold [OF refl, of exampleTwoOfFour initialStorage]
    apply (subst detection_eq [of "returned (detectQx7DataClearing exampleTwoOfFour initialStorage)"])
    by (simp add: probes_eval exampleTwoOfFour_def)
  have d: "returned (detectQx7DataClearing exampleNoIdNoSession initialStorage)
     = \<lparr>det_dataCleared = True, confidence = 2 / 4,
        checks = [True, True, False, False], clearedCount = 2, totalChecks = 4\<rparr>"
    using detect_threshold [OF refl, of exampleNoIdNoSession initialStorage]
    apply (subst detection_eq [of "returned (detectQx7DataClearing exampleNoIdNoSession initialStorage)"])
    by (simp add: probes_eval exampleNoIdNoSession_def)
  have e: "returned (detectQx7DataClearing exampleWorkerThrows initialStorage)
     = \<lparr>det_dataCleared = False, confidence = 1 / 5,
        checks = [False, False, False, False, True], clearedCount = 1, totalChecks = 5\<rparr>"
    using detect_threshold [OF refl, of exampleWorkerThrows initialStorage]
    apply (subst detection_eq [of "returned (detectQx7DataClearing exampleWorkerThrows initialStorage)"])
    by (simp add: probes_eval exampleWorkerThrows_def)
  from a b c d e show ?thesis by simp
qed


section \<open>Claims about the fetch orchestration\<close>

lemma attemptBody_fails:
  assumes "requestFails (fetched e)"
  shows "\<exists>err. attemptBody e st = (Inl err, stateAfterSignals e st, [requestOf e st])"
proof (cases "fetched e")
  case NetworkError
  then show ?thesis
    by (simp add: attemptBody_def Let_def stateAfterSignals_def requestOf_def)
next
  case (HttpResponse ok json)
  with assms show ?thesis
    by (cases json)
      (auto simp: attemptBody_def Let_def stateAfterSignals_def requestOf_def)
qed

lemma attemptBody_succeeds:
  assumes "\<not> requestFails (fetched e)"
  shows "\<exists>res evs d. attemptBody e st = (Inr res, stateAfterSignals e st, requestOf e st # evs)
           \<and> timeline evs = [] \<and> fetched e = HttpResponse True (JsonObject d)
           \<and> fr_data res = Some d \<and> set (storedIds evs) \<subseteq> {d_qx7Id d}"
proof (cases "fetched e")
  case NetworkError
  with assms show ?thesis by simp
next
  case (HttpResponse ok json)
  with assms obtain d where d: "json = JsonObject d" and ok: "ok"
    by (cases json) auto
  with HttpResponse show ?thesis
    by (auto simp: attemptBody_def Let_def stateAfterSignals_def requestOf_def)
qed

lemma timeline_request_cons: "timeline (requestOf e st # evs) = None # timeline evs"
  by (simp add: requestOf_def handleRequest_def)

lemma storedIds_request_cons: "storedIds (requestOf e st # evs) = storedIds evs"
  by (simp add: requestOf_def handleRequest_def)

text \<open>One pass of the loop: success, a retry after a wait, or the last failure.\<close>

lemma fetchLoop_success:
  assumes "attempt < 3" and "\<not> requestFails (fetched (env attempt))"
  shows "\<exists>res evs d. fetchLoop env attempt st tr
            = (Some res, stateAfterSignals (env attempt) st, tr @ requestOf (env attempt) st # evs)
          \<and> timeline evs = [] \<and> fetched (env attempt) = HttpResponse True (JsonObject d)
          \<and> fr_data res = Some d \<and> set (storedIds evs) \<subseteq> {d_qx7Id d}"
proof -
  from attemptBody_succeeds [OF assms(2), of st] obtain res evs d where
    a: "attemptBody (env attempt) st
          = (Inr res, stateAfterSignals (env attempt) st, requestOf (env attempt) st # evs)"
    and r: "timeline evs = []" "fetched (env attempt) = HttpResponse True (JsonObject d)"
      "fr_data res = Some d" "set (storedIds evs) \<subseteq> {d_qx7Id d}"
    by blast
  from assms(1) a have "fetchLoop env attempt st tr
      = (Some res, stateAfterSignals (env attempt) st, tr @ requestOf (env attempt) st # evs)"
    by (simp add: fetchLoop.simps [of env attempt st tr] maxRetries_def)
  with r show ?thesis by blast
qed

lemma fetchLoop_retry:
  assumes "attempt + 1 < 3" and "requestFails (fetched (env attempt))"
  shows "fetchLoop env attempt st tr
           = fetchLoop env (attempt + 1) (stateAfterSignals (env attempt) st)
               (tr @ [requestOf (env attempt) st, Sleep (2 ^ (attempt + 1) * 1000)])"
proof -
  from attemptBody_fails [OF assms(2), of st] obtain err where
    "attemptBody (env attempt) st
       = (Inl err, stateAfterSignals (env attempt) st, [requestOf (env attempt) st])"
    by blast
  with assms(1) show ?thesis
    by (simp add: fetchLoop.simps [of env attempt st tr] maxRetries_def)
qed

lemma fetchLoop_exhausted:
  assumes "attempt < 3 \<and> 3 \<le> attempt + 1" and "requestFails (fetched (env attempt))"
  shows "fetchLoop env attempt st tr
           = (Some degraded, stateAfterSignals (env attempt) st, tr @ [requestOf (env attempt) st])"
proof -
  from attemptBody_fails [OF assms(2), of st] obtain err where
    "attemptBody (env attempt) st
       = (Inl err, stateAfterSignals (env attempt) st, [requestOf (env attempt) st])"
    by blast
  with assms(1) show ?thesis
    by (simp add: fetchLoop.simps [of env attempt st tr] maxRetries_def)
qed

text \<open>The outcome of the whole run, by the first attempt that succeeds.\<close>

lemma fetch_first_success:
  assumes "\<not> requestFails (fetched (env 0))"
  shows "\<exists>res st' tr. fetchEnhancedZkx env st = (Some res, st', tr)
          \<and> timeline tr = [None] \<and> (\<forall>i \<in> set (storedIds tr). serverId env 0 i)"
  using fetchLoop_success [of 0 env st "[]"] assms
  by (fastforce simp: fetchEnhancedZkx_def timeline_request_cons storedIds_request_cons
      serverId_def)

lemma fetch_second_success:
  assumes "requestFails (fetched (env 0))" and "\<not> requestFails (fetched (env 1))"
  shows "\<exists>res st' tr. fetchEnhancedZkx env st = (Some res, st', tr)
          \<and> timeline tr = [None, Some (2 ^ 1 * 1000), None]
          \<and> (\<forall>i \<in> set (storedIds tr). serverId env 1 i)"
proof -
  let ?s1 = "stateAfterSignals (env 0) st"
  let ?t1 = "[requestOf (env 0) st, Sleep (2 ^ 1 * 1000)]"
  have l0: "fetchEnhancedZkx env st = fetchLoop env 1 ?s1 ?t1"
    using fetchLoop_retry [of 0 env st "[]"] assms(1) by (simp add: fetchEnhancedZkx_def)
  from fetchLoop_success [of 1 env ?s1 ?t1] assms(2) obtain res evs d where
    "fetchLoop env 1 ?s1 ?t1
       = (Some res, stateAfterSignals (env 1) ?s1, ?t1 @ requestOf (env 1) ?s1 # evs)"
    "timeline evs = []" "fetched (env 1) = HttpResponse True (JsonObject d)"
    "set (storedIds evs) \<subseteq> {d_qx7Id d}"
    by auto
  with l0 show ?thesis
    by (fastforce simp: timeline_request_cons storedIds_request_cons serverId_def)
qed

lemma fetch_two_failures:
  assumes "requestFails (fetched (env 0))" and "requestFails (fetched (env 1))"
  shows "fetchEnhancedZkx env st
           = fetchLoop env 2 (stateAfterSignals (env 1) (stateAfterSignals (env 0) st))
               [requestOf (env 0) st, Sleep (2 ^ 1 * 1000),
                requestOf (env 1) (stateAfterSignals (env 0) st), Sleep (2 ^ 2 * 1000)]"
proof -
  let ?s1 = "stateAfterSignals (env 0) st"
  let ?t1 = "[requestOf (env 0) st, Sleep (2 ^ 1 * 1000)]"
  have l0: "fetchEnhancedZkx env st = fetchLoop env 1 ?s1 ?t1"
    using fetchLoop_retry [of 0 env st "[]"] assms(1) by (simp add: fetchEnhancedZkx_def)
  have "fetchLoop env 1 ?s1 ?t1
      = fetchLoop env 2 (stateAfterSignals (env 1) ?s1)
          (?t1 @ [requestOf (env 1) ?s1, Sleep (2 ^ 2 * 1000)])"
    using fetchLoop_retry [of 1 env ?s1 ?t1] assms(2) by (simp add: numeral_2_eq_2)
  with l0 show ?thesis by simp
qed

lemma fetch_third_success:
  assumes "requestFails (fetched (env 0))" and "requestFails (fetched (env 1))"
    and "\<not> requestFails (fetched (env 2))"
  shows "\<exists>res st' tr. fetchEnhancedZkx env st = (Some res, st', tr)
          \<and> timeline tr = [None, Some (2 ^ 1 * 1000), None, Some (2 ^ 2 * 1000), None]
          \<and> (\<forall>i \<in> set (storedIds tr). serverId env 2 i)"
proof -
  let ?s2 = "stateAfterSignals (env 1) (stateAfterSignals (env 0) st)"
  let ?t2 = "[requestOf (env 0) st, Sleep (2 ^ 1 * 1000),
                requestOf (env 1) (stateAfterSignals (env 0) st), Sleep (2 ^ 2 * 1000)]"
  from fetchLoop_success [of 2 env ?s2 ?t2] assms(3) obtain res evs d where
    "fetchLoop env 2 ?s2 ?t2
       = (Some res, stateAfterSignals (env 2) ?s2, ?t2 @ requestOf (env 2) ?s2 # evs)"
    "timeline evs = []" "fetched (env 2) = HttpResponse True (JsonObject d)"
    "set (storedIds evs) \<subseteq> {d_qx7Id d}"
    by auto
  with fetch_two_failures [OF assms(1,2), of st] show ?thesis
    by (fastforce simp: timeline_request_cons storedIds_request_cons serverId_def)
qed

lemma fetch_all_fail:
  assumes "requestFails (fetched (env 0))" and "requestFails (fetched (env 1))"
    and "requestFails (fetched (env 2))"
  shows "fetchEnhancedZkx env st
           = (Some degraded,
              stateAfterSignals (env 2) (stateAfterSignals (env 1) (stateAfterSignals (env 0) st)),
              [requestOf (env 0) st, Sleep (2 ^ 1 * 1000),
               requestOf (env 1) (stateAfterSignals (env 0) st), Sleep (2 ^ 2 * 1000),
               requestOf (env 2) (stateAfterSignals (env 1) (stateAfterSignals (env 0) st))])"
  using fetch_two_failures [OF assms(1,2), of st]
    fetchLoop_exhausted [of 2 env, OF _ assms(3)]
  by simp

text \<open>
  C8. For every sequence of outcomes of the requests, \<open>fetchEnhancedZkx\<close> returns a result
  after \<open>n\<close> attempts with \<open>1 \<le> n \<le> 3\<close>; between attempt \<open>k\<close> and attempt \<open>k + 1\<close> it
  waits \<open>2 ^ k\<close> seconds and it waits nowhere else; every id it stores or sends to other
  contexts is the id of a server response; and when all three attempts fail the result is
  exactly \<open>{dataCleared: true, data: null, confidence: 0, storageHealth: "degraded"}\<close>
  and no id was stored at all.
\<close>

theorem fetch_bounded_retry:
  "\<exists>res st' tr n.
     fetchEnhancedZkx env st = (Some res, st', tr)
     \<and> n = length (filter (\<lambda>x. x = None) (timeline tr)) \<and> 1 \<le> n \<and> n \<le> 3
     \<and> timeline tr
         = take (2 * n - 1) [None, Some (2 ^ 1 * 1000), None, Some (2 ^ 2 * 1000), None]
     \<and> (\<forall>i \<in> set (storedIds tr). \<exists>k<3. serverId env k i)
     \<and> ((\<forall>k<3. requestFails (fetched (env k)))
          \<longrightarrow> res = degraded \<and> n = 3 \<and> storedIds tr = [])"
proof (cases "requestFails (fetched (env 0))")
  case False
  from fetch_first_success [of env st] False obtain res st' tr where
    r: "fetchEnhancedZkx env st = (Some res, st', tr)" "timeline tr = [None]"
    "\<forall>i \<in> set (storedIds tr). serverId env 0 i" by blast
  have "\<forall>i \<in> set (storedIds tr). \<exists>k<3. serverId env k i"
    using r(3) by (auto intro: exI [of _ 0])
  moreover have "\<not> (\<forall>k<3. requestFails (fetched (env k)))"
  proof
    assume "\<forall>k<3. requestFails (fetched (env k))"
    then have "requestFails (fetched (env 0))" by simp
    with False show False by simp
  qed
  ultimately show ?thesis using r(1,2)
    by (intro exI [of _ res] exI [of _ st'] exI [of _ tr] exI [of _ 1]) auto
next
  case f0: True
  show ?thesis
  proof (cases "requestFails (fetched (env 1))")
    case False
    from fetch_second_success [of env st] f0 False obtain res st' tr where
      r: "fetchEnhancedZkx env st = (Some res, st', tr)"
      "timeline tr = [None, Some (2 ^ 1 * 1000), None]"
      "\<forall>i \<in> set (storedIds tr). serverId env 1 i" by blast
    have "\<forall>i \<in> set (storedIds tr). \<exists>k<3. serverId env k i"
      using r(3) by (auto intro: exI [of _ 1])
    moreover have "\<not> (\<forall>k<3. requestFails (fetched (env k)))"
    proof
      assume "\<forall>k<3. requestFails (fetched (env k))"
      then have "requestFails (fetched (env 1))" by simp
      with False show False by simp
    qed
    ultimately show ?thesis using r(1,2)
      by (intro exI [of _ res] exI [of _ st'] exI [of _ tr] exI [of _ 2]) auto
  next
    case f1: True
    show ?thesis
    proof (cases "requestFails (fetched (env 2))")
      case False
      from fetch_third_success [of env st] f0 f1 False obtain res st' tr where
        r: "fetchEnhancedZkx env st = (Some res, st', tr)"
        "timeline tr = [None, Some (2 ^ 1 * 1000), None, Some (2 ^ 2 * 1000), None]"
        "\<forall>i \<in> set (storedIds tr). serverId env 2 i" by blast
      have "\<forall>i \<in> set (storedIds tr). \<exists>k<3. serverId env k i"
        using r(3) by (auto intro: exI [of _ 2])
      moreover have "\<not> (\<forall>k<3. requestFails (fetched (env k)))"
      proof
        assume "\<forall>k<3. requestFails (fetched (env k))"
        then have "requestFails (fetched (env 2))" by simp
        with False show False by simp
      qed
      ultimately show ?thesis using r(1,2)
        by (intro exI [of _ res] exI [of _ st'] exI [of _ tr] exI [of _ 3]) auto
    next
      case f2: True
      from fetch_all_fail [of env st] f0 f1 f2 show ?thesis
        by (auto simp: timeline_request_cons storedIds_request_cons)
    qed
  qed
qed

lemma example_offline_signals:
  "stateAfterSignals (exampleOffline k) initialStorage = initialStorage"
  "requestOf (exampleOffline k) initialStorage
     = Request ''/api/v1/estore/onboarding-step1?rockmanId=1234567890''
         [(''Content-Type'', Str ''application/json''),
          (''X-Qx7-id'', Str ''0123456789abcdef''),
          (''X-Data-Cleared'', StringOfBool False),
          (''X-Data-Clearing-Confidence'', StringOfNum (1 / 5))]"
  by (simp_all add: stateAfterSignals_def requestOf_def requestHeaders_def exampleOffline_def
      exampleOneOfFive_def detect_eval handleRequest_def ENDPOINT_1_def)

theorem fetch_bounded_retry_witness:
  "requestFails (fetched (exampleOffline 0)) \<and> requestFails (fetched (exampleOffline 1))
   \<and> requestFails (fetched (exampleOffline 2))
   \<and> fetchEnhancedZkx exampleOffline initialStorage
      = (Some degraded, initialStorage,
         [Request ''/api/v1/estore/onboarding-step1?rockmanId=1234567890''
            [(''Content-Type'', Str ''application/json''),
             (''X-Qx7-id'', Str ''0123456789abcdef''),
             (''X-Data-Cleared'', StringOfBool False),
             (''X-Data-Clearing-Confidence'', StringOfNum (1 / 5))],
          Sleep 2000,
          Request ''/api/v1/estore/onboarding-step1?rockmanId=1234567890''
            [(''Content-Type'', Str ''application/json''),
             (''X-Qx7-id'', Str ''0123456789abcdef''),
             (''X-Data-Cleared'', StringOfBool False),
             (''X-Data-Clearing-Confidence'', StringOfNum (1 / 5))],
          Sleep 4000,
          Request ''/api/v1/estore/onboarding-step1?rockmanId=1234567890''
            [(''Content-Type'', Str ''application/json''),
             (''X-Qx7-id'', Str ''0123456789abcdef''),
             (''X-Data-Cleared'', StringOfBool False),
             (''X-Data-Clearing-Confidence'', StringOfNum (1 / 5))]])
   \<and> fst (fetchEnhancedZkx exampleOffline initialStorage) = Some degraded
   \<and> storedIds (snd (snd (fetchEnhancedZkx exampleOffline initialStorage))) = []"
proof -
  have f: "requestFails (fetched (exampleOffline k))" for k
    by (simp add: exampleOffline_def)
  have a: "\<forall>k<3. requestFails (fetched (exampleOffline k))"
    using f by simp
  from fetch_bounded_retry [of exampleOffline initialStorage] a
  have "fst (fetchEnhancedZkx exampleOffline initialStorage) = Some degraded
     \<and> storedIds (snd (snd (fetchEnhancedZkx exampleOffline initialStorage))) = []"
    by auto
  moreover have "fetchEnhancedZkx exampleOffline initialStorage
      = (Some degraded, initialStorage,
         [requestOf (exampleOffline 0) initialStorage, Sleep 2000,
          requestOf (exampleOffline 1) initialStorage, Sleep 4000,
          requestOf (exampleOffline 2) initialStorage])"
    using fetch_all_fail [of exampleOffline initialStorage] f
    by (simp add: example_offline_signals(1))
  ultimately show ?thesis
    using f by (simp add: example_offline_signals(2))
qed

end
